theory Spec2Isabelle
  imports Complex_Main "HOL-Library.FSet" "HOL-Library.Multiset" "HOL-Library.Monad_Syntax"
begin

section \<open>Conventions\<close>

text \<open>
  The observers package is Python. Python's \<open>int\<close> is modelled by \<^typ>\<open>int\<close>, a length or a
  count by \<^typ>\<open>nat\<close>, \<open>str\<close> by \<^typ>\<open>string\<close>, \<open>float\<close> by \<^typ>\<open>real\<close> (exact
  arithmetic: rounding of IEEE doubles is not part of the model), a \<open>set\<close> by a finite set
  \<^typ>\<open>'a fset\<close>, a \<open>list\<close> by a list, a \<open>dict\<close> by an association list in insertion order.
\<close>

section \<open>Strings, errors and the runtime\<close>

datatype error = KeyError | ValueError | TypeError | StatisticsError

text \<open>ASCII versions of the \<open>str\<close> methods the package calls.\<close>

definition upper_letters :: string where
  "upper_letters = ''ABCDEFGHIJKLMNOPQRSTUVWXYZ''"

definition lower_letters :: string where
  "lower_letters = ''abcdefghijklmnopqrstuvwxyz''"

definition is_upper :: "char \<Rightarrow> bool" where
  "is_upper c = (c \<in> set upper_letters)"

definition is_lower :: "char \<Rightarrow> bool" where
  "is_lower c = (c \<in> set lower_letters)"

definition to_lower :: "char \<Rightarrow> char" where
  "to_lower c = (case map_of (zip upper_letters lower_letters) c of Some l \<Rightarrow> l | None \<Rightarrow> c)"

definition to_upper :: "char \<Rightarrow> char" where
  "to_upper c = (case map_of (zip lower_letters upper_letters) c of Some u \<Rightarrow> u | None \<Rightarrow> c)"

definition lower :: "string \<Rightarrow> string" where
  "lower s = map to_lower s"

text \<open>\<open>str.title()\<close>: a letter after a non-letter is upper-cased, any other letter lower-cased.\<close>

fun title_from :: "bool \<Rightarrow> string \<Rightarrow> string" where
  "title_from prev [] = []"
| "title_from prev (c # cs) =
     (if is_upper c \<or> is_lower c
      then (if prev then to_lower c else to_upper c) # title_from True cs
      else c # title_from False cs)"

definition str_title :: "string \<Rightarrow> string" where
  "str_title s = title_from False s"

text \<open>\<open>s.replace(old, new)\<close> for one-character \<open>old\<close> and \<open>new\<close>.\<close>

definition replace_char :: "char \<Rightarrow> char \<Rightarrow> string \<Rightarrow> string" where
  "replace_char old new s = map (\<lambda>c. if c = old then new else c) s"

definition startswith :: "string \<Rightarrow> string \<Rightarrow> bool" where
  "startswith s p = (take (length p) s = p)"

text \<open>\<open>pat in s\<close> on strings: \<open>pat\<close> occurs as a contiguous substring of \<open>s\<close>.\<close>

fun str_contains :: "string \<Rightarrow> string \<Rightarrow> bool" where
  "str_contains pat [] = (pat = [])"
| "str_contains pat (c # cs) = (startswith (c # cs) pat \<or> str_contains pat cs)"

text \<open>\<open>s.lstrip(chars)\<close> for a single character.\<close>

definition lstrip_char :: "char \<Rightarrow> string \<Rightarrow> string" where
  "lstrip_char ch s = dropWhile (\<lambda>c. c = ch) s"

fun join :: "string \<Rightarrow> string list \<Rightarrow> string" where
  "join sep [] = []"
| "join sep [x] = x"
| "join sep (x # y # ys) = x @ sep @ join sep (y # ys)"

text \<open>The arrow U+2192 of the pattern keys, in UTF-8.\<close>

definition arrow :: string where
  "arrow = [CHR 0xE2, CHR 0x86, CHR 0x92]"

text \<open>The character of a decimal digit \<open>d < 10\<close>.\<close>

definition digit_char :: "nat \<Rightarrow> char" where
  "digit_char d = ''0123456789'' ! d"

text \<open>The decimal digits of a number, zero-padded to \<open>w\<close> places (\<open>%0wd\<close>).\<close>

fun zfill :: "nat \<Rightarrow> nat \<Rightarrow> string" where
  "zfill 0 n = []"
| "zfill (Suc w) n = zfill w (n div 10) @ [digit_char (n mod 10)]"

text \<open>\<open>str(i)\<close> for an \<open>int\<close>.\<close>

function str_nat :: "nat \<Rightarrow> string" where
  "str_nat n = (if n < 10 then [digit_char n] else str_nat (n div 10) @ [digit_char (n mod 10)])"
  by pat_completeness auto
termination
  by (relation "measure id") auto

declare str_nat.simps [simp del]

definition str_int :: "int \<Rightarrow> string" where
  "str_int i = (if i < 0 then CHR ''-'' # str_nat (nat (- i)) else str_nat (nat i))"

subsection \<open>\<open>datetime.date\<close> and \<open>datetime.datetime\<close> (standard library)\<close>

text \<open>
  Naive dates and times, as \<open>date.today()\<close> and \<open>datetime.now()\<close> produce them. Python
  only constructs values that satisfy \<open>valid_date\<close> and \<open>valid_datetime\<close>.
\<close>

record pydate =
  year :: nat
  month :: nat
  day :: nat

record pydatetime = pydate +
  hour :: nat
  minute :: nat
  second :: nat
  microsecond :: nat

definition is_leap :: "nat \<Rightarrow> bool" where
  "is_leap y = (y mod 4 = 0 \<and> (y mod 100 \<noteq> 0 \<or> y mod 400 = 0))"

definition days_in_month :: "nat \<Rightarrow> nat \<Rightarrow> nat" where
  "days_in_month y m =
     (if m = 2 then (if is_leap y then 29 else 28)
      else if m = 4 \<or> m = 6 \<or> m = 9 \<or> m = 11 then 30 else 31)"

definition valid_ymd :: "nat \<Rightarrow> nat \<Rightarrow> nat \<Rightarrow> bool" where
  "valid_ymd y m d = (1 \<le> y \<and> y \<le> 9999 \<and> 1 \<le> m \<and> m \<le> 12 \<and> 1 \<le> d \<and> d \<le> days_in_month y m)"

definition valid_hms :: "nat \<Rightarrow> nat \<Rightarrow> nat \<Rightarrow> nat \<Rightarrow> bool" where
  "valid_hms h mi s us = (h < 24 \<and> mi < 60 \<and> s < 60 \<and> us < 1000000)"

definition valid_date :: "pydate \<Rightarrow> bool" where
  "valid_date d = valid_ymd (year d) (month d) (day d)"

definition valid_datetime :: "pydatetime \<Rightarrow> bool" where
  "valid_datetime t = (valid_ymd (year t) (month t) (day t) \<and>
                       valid_hms (hour t) (minute t) (second t) (microsecond t))"

text \<open>
  The runtime services the observers call: the clock (\<open>datetime.now()\<close>) and the rendering of
  floats in f-strings (\<open>{x:.Nf}\<close> and \<open>{x:.0%}\<close>). They are parameters of the model.
\<close>

record runtime =
  clock :: pydatetime
  fmt_fixed :: "nat \<Rightarrow> real \<Rightarrow> string"
  fmt_percent :: "real \<Rightarrow> string"

section \<open>pattern\_models.py\<close>

record CommandSequence =
  sequence :: "string list"
  occurrence_count :: int
  avg_duration_ms :: int
  confidence :: real

record FileCluster =
  files :: "string list"
  co_occurrence_count :: int
  jaccard_similarity :: real
  cluster_id :: string

record TimePatternSummary =
  peak_hours :: "int list"
  peak_days :: "int list"
  avg_session_duration_minutes :: real
  session_count_by_hour :: "(int \<times> int) list"
  most_productive_hour :: "int option"

record SuccessCorrelation =
  activity_type :: string
  activity_pattern :: string
  outcome_type :: string
  correlation_strength :: real
  sample_size :: int
  time_window_minutes :: int

text \<open>
  The field \<open>confidence\<close> of \<open>PatternReport\<close> is \<open>report_confidence\<close> here, the name
  \<open>confidence\<close> being the field of \<open>CommandSequence\<close>.
\<close>

record PatternReport =
  command_sequences :: "CommandSequence list"
  file_clusters :: "FileCluster list"
  time_patterns :: "TimePatternSummary option"
  success_correlations :: "SuccessCorrelation list"
  analysis_timestamp :: string
  report_confidence :: real

text \<open>
  The property \<open>PatternReport.pattern_count\<close>. A \<open>TimePatternSummary\<close> object is always
  truthy, so \<open>1 if self.time_patterns else 0\<close> tests for \<open>None\<close>.
\<close>

definition pattern_count :: "PatternReport \<Rightarrow> int" where
  "pattern_count r =
     int (length (command_sequences r)) +
     int (length (file_clusters r)) +
     int (length (success_correlations r)) +
     (if time_patterns r \<noteq> None then 1 else 0)"

definition has_patterns :: "PatternReport \<Rightarrow> bool" where
  "has_patterns r = (pattern_count r > 0)"

definition calculate_jaccard_similarity :: "'a fset \<Rightarrow> 'a fset \<Rightarrow> real" where
  "calculate_jaccard_similarity set1 set2 =
     (if set1 = {||} \<or> set2 = {||} then 0.0
      else let intersection = fcard (set1 |\<inter>| set2);
               union = fcard (set1 |\<union>| set2)
           in if union > 0 then real intersection / real union else 0.0)"

section \<open>pattern\_analyzer.py\<close>

text \<open>
  The thresholds that \<open>PatternAnalyzer.__init__\<close> reads from the configuration, with their
  defaults. The n-gram length is a natural number.
\<close>

record PatternAnalyzer =
  command_min_occurrences :: int
  command_sequence_length :: nat
  file_similarity_threshold :: real
  file_cluster_min_size :: int
  time_peak_window_hours :: int
  time_min_sessions :: int
  correlation_window_minutes :: int
  min_correlation :: real

definition default_PatternAnalyzer :: PatternAnalyzer where
  "default_PatternAnalyzer =
     \<lparr>command_min_occurrences = 3, command_sequence_length = 3,
      file_similarity_threshold = 0.3, file_cluster_min_size = 2,
      time_peak_window_hours = 2, time_min_sessions = 5,
      correlation_window_minutes = 30, min_correlation = 0.5\<rparr>"

text \<open>
  A row of the query of \<open>analyze_command_sequences\<close>:
  \<open>(command_name, event_id, event_timestamp, session_id)\<close>, the rows already in the order
  \<open>ORDER BY session_id, event_timestamp\<close>. A \<open>NULL\<close> session is \<open>None\<close>. A failing
  query makes the analysis return the empty list, as a database without rows does.
\<close>

type_synonym command_row = "string \<times> int \<times> string \<times> string option"

text \<open>\<open>d[k].append(v)\<close> on a \<open>defaultdict(list)\<close>: a new key goes to the end.\<close>

fun dict_append :: "('k \<times> 'v list) list \<Rightarrow> 'k \<Rightarrow> 'v \<Rightarrow> ('k \<times> 'v list) list" where
  "dict_append [] k v = [(k, [v])]"
| "dict_append ((k', vs) # d) k v =
     (if k' = k then (k', vs @ [v]) # d else (k', vs) # dict_append d k v)"

text \<open>\<open>c[k] += 1\<close> on a \<open>Counter\<close>: a new key goes to the end with count 1.\<close>

fun counter_incr :: "('k \<times> nat) list \<Rightarrow> 'k \<Rightarrow> ('k \<times> nat) list" where
  "counter_incr [] k = [(k, 1)]"
| "counter_incr ((k', c) # d) k =
     (if k' = k then (k', c + 1) # d else (k', c) # counter_incr d k)"

text \<open>
  \<open>Counter.most_common()\<close> is \<open>sorted(items, key=count, reverse=True)\<close>: a stable sort by
  descending count, equal counts staying in insertion order.
\<close>

definition most_common :: "('k \<times> nat) list \<Rightarrow> ('k \<times> nat) list" where
  "most_common c = sort_key (\<lambda>kc. - int (snd kc)) c"

definition build_session_sequences :: "command_row list \<Rightarrow> (string \<times> string list) list" where
  "build_session_sequences rows =
     foldl (\<lambda>d row. case row of (command_name, event_id, timestamp, session_id) \<Rightarrow>
              (case session_id of
                 None \<Rightarrow> d
               | Some sid \<Rightarrow> if sid \<noteq> [] then dict_append d sid command_name else d))
           [] rows"

text \<open>The windows \<open>commands[i:i + n]\<close> for \<open>i in range(len(commands) - n + 1)\<close>.\<close>

definition ngrams :: "nat \<Rightarrow> string list \<Rightarrow> string list list" where
  "ngrams n commands =
     (if length commands < n then []
      else map (\<lambda>i. take n (drop i commands)) [0 ..< length commands - n + 1])"

definition count_sequences :: "nat \<Rightarrow> (string \<times> string list) list \<Rightarrow> (string list \<times> nat) list" where
  "count_sequences n session_sequences =
     foldl (\<lambda>counter commands. foldl counter_incr counter (ngrams n commands))
           [] (map snd session_sequences)"

definition analyze_command_sequences :: "PatternAnalyzer \<Rightarrow> command_row list \<Rightarrow> CommandSequence list" where
  "analyze_command_sequences self rows =
     (if rows = [] then []
      else let session_sequences = build_session_sequences rows;
               n = command_sequence_length self;
               sequence_counter = count_sequences n session_sequences
           in map (\<lambda>(seq_tuple, count).
                     \<lparr>sequence = seq_tuple, occurrence_count = int count,
                      avg_duration_ms = 0, confidence = min 1.0 (real count / 10.0)\<rparr>)
                  (filter (\<lambda>(seq_tuple, count). int count \<ge> command_min_occurrences self)
                          (most_common sequence_counter)))"

text \<open>
  \<open>analyze_all_patterns\<close>: the results of the four awaited analyses (each a database
  query) and the clock's timestamp are the arguments; the body is the code after them.
\<close>

definition analyze_all_patterns ::
  "CommandSequence list \<Rightarrow> FileCluster list \<Rightarrow> TimePatternSummary option \<Rightarrow>
   SuccessCorrelation list \<Rightarrow> string \<Rightarrow> PatternReport" where
  "analyze_all_patterns cmd_sequences clusters time_pats correlations now_iso =
     (let pattern_count = int (length cmd_sequences) + int (length clusters) + int (length correlations);
          confidence = min 1.0 (real_of_int pattern_count / 10.0)
      in \<lparr>command_sequences = cmd_sequences, file_clusters = clusters,
          time_patterns = time_pats, success_correlations = correlations,
          analysis_timestamp = now_iso, report_confidence = confidence\<rparr>)"

section \<open>executive\_models.py\<close>

datatype TrendDirection = UP | DOWN | STABLE | DIRECTION_INSUFFICIENT_DATA

datatype TrendSignificance = SIGNIFICANT | NORMAL | SIGNIFICANCE_INSUFFICIENT_DATA

datatype AlertSeverity = CRITICAL | WARNING | INFO

datatype AlertCategory = PRODUCTIVITY | ALIGNMENT | PATTERN_CHANGE | OPPORTUNITY | ANOMALY

datatype ProgressIndicator = ON_TRACK | AT_RISK | BEHIND | UNKNOWN

text \<open>The \<open>.value\<close> of each enum member.\<close>

fun TrendDirection_value :: "TrendDirection \<Rightarrow> string" where
  "TrendDirection_value UP = ''up''"
| "TrendDirection_value DOWN = ''down''"
| "TrendDirection_value STABLE = ''stable''"
| "TrendDirection_value DIRECTION_INSUFFICIENT_DATA = ''insufficient_data''"

fun TrendSignificance_value :: "TrendSignificance \<Rightarrow> string" where
  "TrendSignificance_value SIGNIFICANT = ''significant''"
| "TrendSignificance_value NORMAL = ''normal''"
| "TrendSignificance_value SIGNIFICANCE_INSUFFICIENT_DATA = ''insufficient_data''"

fun AlertSeverity_value :: "AlertSeverity \<Rightarrow> string" where
  "AlertSeverity_value CRITICAL = ''critical''"
| "AlertSeverity_value WARNING = ''warning''"
| "AlertSeverity_value INFO = ''info''"

fun AlertCategory_value :: "AlertCategory \<Rightarrow> string" where
  "AlertCategory_value PRODUCTIVITY = ''productivity''"
| "AlertCategory_value ALIGNMENT = ''alignment''"
| "AlertCategory_value PATTERN_CHANGE = ''pattern_change''"
| "AlertCategory_value OPPORTUNITY = ''opportunity''"
| "AlertCategory_value ANOMALY = ''anomaly''"

fun ProgressIndicator_value :: "ProgressIndicator \<Rightarrow> string" where
  "ProgressIndicator_value ON_TRACK = ''on_track''"
| "ProgressIndicator_value AT_RISK = ''at_risk''"
| "ProgressIndicator_value BEHIND = ''behind''"
| "ProgressIndicator_value UNKNOWN = ''unknown''"

text \<open>
  The values a \<open>Dict[str, Any]\<close> holds: what \<open>to_dict\<close> writes and \<open>from_dict\<close> reads.
\<close>

datatype pyval =
    PNone
  | PBool bool
  | PInt int
  | PFloat real
  | PStr string
  | PList "pyval list"
  | PDict "(string \<times> pyval) list"

type_synonym pydict = "(string \<times> pyval) list"

record WeeklySnapshot =
  period_start :: pydate
  period_end :: pydate
  total_events :: int
  productivity_score :: real
  strategic_alignment_avg :: real
  top_patterns :: "string list"
  anomalies_detected :: int
  pattern_diversity :: real
  success_signal_rate :: real
  active_hours :: int

record TrendMetric =
  metric_name :: string
  current_value :: real
  previous_value :: real
  change_percent :: real
  trend_direction :: TrendDirection
  significance :: TrendSignificance
  z_score :: real
  data_points :: int

record ExecutiveAlert =
  alert_id :: string
  severity :: AlertSeverity
  category :: AlertCategory
  title :: string
  description :: string
  data_evidence :: pydict
  suggested_actions :: "string list"
  created_at :: pydatetime
  acknowledged :: bool
  threshold_triggered :: "real option"

record GoalCorrelation =
  okr_id :: string
  okr_title :: string
  aligned_patterns :: "string list"
  alignment_score :: real
  progress_indicator :: ProgressIndicator
  recommendations :: "string list"
  evidence_count :: int
  last_activity :: "pydatetime option"

record ExecutiveInsightReport =
  generated_at :: pydatetime
  weekly_snapshot :: WeeklySnapshot
  trend_metrics :: "TrendMetric list"
  alerts :: "ExecutiveAlert list"
  goal_correlations :: "GoalCorrelation list"
  summary :: string
  metadata :: pydict

definition calculate_productivity_score :: "int \<Rightarrow> int \<Rightarrow> real \<Rightarrow> int \<Rightarrow> real" where
  "calculate_productivity_score success_signals n_events avg_confidence n_hours =
     (if n_events = 0 then 0.0
      else let success_rate = min 1.0 (real_of_int success_signals / real_of_int (max 1 n_events));
               confidence_score = avg_confidence;
               activity_score = min 1.0 (real_of_int n_hours / 8.0)
           in success_rate * 0.4 + confidence_score * 0.3 + activity_score * 0.3)"

definition calculate_change_percent :: "real \<Rightarrow> real \<Rightarrow> real" where
  "calculate_change_percent current previous =
     (if previous = 0 then (if current > 0 then 100.0 else 0.0)
      else ((current - previous) / previous) * 100)"

definition determine_trend_direction :: "real \<Rightarrow> real \<Rightarrow> TrendDirection" where
  "determine_trend_direction change threshold =
     (if \<bar>change\<bar> < threshold then STABLE
      else if change > 0 then UP else DOWN)"

definition calculate_z_score :: "real \<Rightarrow> real \<Rightarrow> real \<Rightarrow> real" where
  "calculate_z_score v mu std_dev = (if std_dev = 0 then 0.0 else (v - mu) / std_dev)"

definition is_significant_change :: "real \<Rightarrow> real \<Rightarrow> TrendSignificance" where
  "is_significant_change change z =
     (if \<bar>change\<bar> > 20.0 \<or> \<bar>z\<bar> > 1.0 then SIGNIFICANT else NORMAL)"

text \<open>\<open>generate_alert_id\<close>: \<open>"alert_" + now.strftime("%Y%m%d_%H%M%S")\<close>.\<close>

definition generate_alert_id :: "runtime \<Rightarrow> string" where
  "generate_alert_id rt =
     (let t = clock rt
      in ''alert_'' @ zfill 4 (year t) @ zfill 2 (month t) @ zfill 2 (day t) @ ''_'' @
         zfill 2 (hour t) @ zfill 2 (minute t) @ zfill 2 (second t))"

subsection \<open>\<open>isoformat\<close> and \<open>fromisoformat\<close> (standard library)\<close>

text \<open>
  \<open>date.isoformat\<close> prints \<open>YYYY-MM-DD\<close>; \<open>datetime.isoformat\<close> prints
  \<open>YYYY-MM-DDTHH:MM:SS\<close>, followed by \<open>.ffffff\<close> when the microsecond is not 0.
  \<open>fromisoformat\<close> raises \<open>ValueError\<close> on a string it cannot read or on a field out of
  range; the result is \<open>None\<close> then. Of the formats Python reads, the model reads the two
  that \<open>isoformat\<close> prints for naive values (with any separator character in place of
  \<open>T\<close>).
\<close>

definition digit_val :: "char \<Rightarrow> nat option" where
  "digit_val c = map_of (zip ''0123456789'' [0, 1, 2, 3, 4, 5, 6, 7, 8, 9]) c"

fun parse_digits :: "string \<Rightarrow> nat \<Rightarrow> nat option" where
  "parse_digits [] acc = Some acc"
| "parse_digits (c # cs) acc =
     (case digit_val c of None \<Rightarrow> None | Some d \<Rightarrow> parse_digits cs (10 * acc + d))"

definition date_isoformat :: "pydate \<Rightarrow> string" where
  "date_isoformat d = zfill 4 (year d) @ ''-'' @ zfill 2 (month d) @ ''-'' @ zfill 2 (day d)"

definition parse_ymd :: "string \<Rightarrow> (nat \<times> nat \<times> nat) option" where
  "parse_ymd s =
     (if length s = 10 \<and> s ! 4 = CHR ''-'' \<and> s ! 7 = CHR ''-''
      then do {
        y \<leftarrow> parse_digits (take 4 s) 0;
        m \<leftarrow> parse_digits (take 2 (drop 5 s)) 0;
        d \<leftarrow> parse_digits (drop 8 s) 0;
        if valid_ymd y m d then Some (y, m, d) else None
      }
      else None)"

definition date_fromisoformat :: "string \<Rightarrow> pydate option" where
  "date_fromisoformat s =
     do { ymd \<leftarrow> parse_ymd s;
          Some \<lparr>year = fst ymd, month = fst (snd ymd), day = snd (snd ymd)\<rparr> }"

definition datetime_isoformat :: "pydatetime \<Rightarrow> string" where
  "datetime_isoformat t =
     zfill 4 (year t) @ ''-'' @ zfill 2 (month t) @ ''-'' @ zfill 2 (day t) @ ''T'' @
     zfill 2 (hour t) @ '':'' @ zfill 2 (minute t) @ '':'' @ zfill 2 (second t) @
     (if microsecond t \<noteq> 0 then ''.'' @ zfill 6 (microsecond t) else [])"

definition parse_hms :: "string \<Rightarrow> (nat \<times> nat \<times> nat \<times> nat) option" where
  "parse_hms s =
     (if (length s = 8 \<or> length s = 15 \<and> s ! 8 = CHR ''.'') \<and> s ! 2 = CHR '':'' \<and> s ! 5 = CHR '':''
      then do {
        h \<leftarrow> parse_digits (take 2 s) 0;
        mi \<leftarrow> parse_digits (take 2 (drop 3 s)) 0;
        sec \<leftarrow> parse_digits (take 2 (drop 6 s)) 0;
        us \<leftarrow> (if length s = 8 then Some 0 else parse_digits (drop 9 s) 0);
        if valid_hms h mi sec us then Some (h, mi, sec, us) else None
      }
      else None)"

definition datetime_fromisoformat :: "string \<Rightarrow> pydatetime option" where
  "datetime_fromisoformat s =
     (if length s < 11 then None
      else do {
        ymd \<leftarrow> parse_ymd (take 10 s);
        hms \<leftarrow> parse_hms (drop 11 s);
        Some \<lparr>year = fst ymd, month = fst (snd ymd), day = snd (snd ymd),
              hour = fst hms, minute = fst (snd hms), second = fst (snd (snd hms)),
              microsecond = snd (snd (snd hms))\<rparr>
      })"

subsection \<open>\<open>to_dict\<close> and \<open>from_dict\<close>\<close>

text \<open>
  \<open>from_dict\<close> returns \<open>None\<close> where the Python raises: a missing key (\<open>KeyError\<close>), a
  string that is no member value of the enum or no ISO date (\<open>ValueError\<close>). Python stores
  whatever value the dict holds in a field; the typed model also returns \<open>None\<close> for a value
  that is not of the field's type. \<open>dict_get\<close> is \<open>data[k]\<close>, \<open>dict_get_default\<close> is
  \<open>data.get(k, default)\<close>, and \<open>truthy\<close> is the truth value of \<open>if v\<close>.
\<close>

fun TrendDirection_of_value :: "string \<Rightarrow> TrendDirection option" where
  "TrendDirection_of_value s =
     (if s = ''up'' then Some UP else if s = ''down'' then Some DOWN
      else if s = ''stable'' then Some STABLE
      else if s = ''insufficient_data'' then Some DIRECTION_INSUFFICIENT_DATA else None)"

fun TrendSignificance_of_value :: "string \<Rightarrow> TrendSignificance option" where
  "TrendSignificance_of_value s =
     (if s = ''significant'' then Some SIGNIFICANT else if s = ''normal'' then Some NORMAL
      else if s = ''insufficient_data'' then Some SIGNIFICANCE_INSUFFICIENT_DATA else None)"

fun AlertSeverity_of_value :: "string \<Rightarrow> AlertSeverity option" where
  "AlertSeverity_of_value s =
     (if s = ''critical'' then Some CRITICAL else if s = ''warning'' then Some WARNING
      else if s = ''info'' then Some INFO else None)"

fun AlertCategory_of_value :: "string \<Rightarrow> AlertCategory option" where
  "AlertCategory_of_value s =
     (if s = ''productivity'' then Some PRODUCTIVITY else if s = ''alignment'' then Some ALIGNMENT
      else if s = ''pattern_change'' then Some PATTERN_CHANGE
      else if s = ''opportunity'' then Some OPPORTUNITY
      else if s = ''anomaly'' then Some ANOMALY else None)"

fun ProgressIndicator_of_value :: "string \<Rightarrow> ProgressIndicator option" where
  "ProgressIndicator_of_value s =
     (if s = ''on_track'' then Some ON_TRACK else if s = ''at_risk'' then Some AT_RISK
      else if s = ''behind'' then Some BEHIND
      else if s = ''unknown'' then Some UNKNOWN else None)"

definition dict_get :: "pydict \<Rightarrow> string \<Rightarrow> pyval option" where
  "dict_get data k = map_of data k"

definition dict_get_default :: "pydict \<Rightarrow> string \<Rightarrow> pyval \<Rightarrow> pyval" where
  "dict_get_default data k dflt = (case map_of data k of None \<Rightarrow> dflt | Some v \<Rightarrow> v)"

fun truthy :: "pyval \<Rightarrow> bool" where
  "truthy PNone = False"
| "truthy (PBool b) = b"
| "truthy (PInt i) = (i \<noteq> 0)"
| "truthy (PFloat r) = (r \<noteq> 0)"
| "truthy (PStr s) = (s \<noteq> [])"
| "truthy (PList vs) = (vs \<noteq> [])"
| "truthy (PDict d) = (d \<noteq> [])"

fun as_int :: "pyval \<Rightarrow> int option" where
  "as_int (PInt i) = Some i"
| "as_int v = None"

fun as_float :: "pyval \<Rightarrow> real option" where
  "as_float (PFloat r) = Some r"
| "as_float (PInt i) = Some (real_of_int i)"
| "as_float v = None"

fun as_str :: "pyval \<Rightarrow> string option" where
  "as_str (PStr s) = Some s"
| "as_str v = None"

fun as_bool :: "pyval \<Rightarrow> bool option" where
  "as_bool (PBool b) = Some b"
| "as_bool v = None"

fun as_list :: "pyval \<Rightarrow> pyval list option" where
  "as_list (PList vs) = Some vs"
| "as_list v = None"

fun as_dict :: "pyval \<Rightarrow> pydict option" where
  "as_dict (PDict d) = Some d"
| "as_dict v = None"

definition as_str_list :: "pyval \<Rightarrow> string list option" where
  "as_str_list v = do { vs \<leftarrow> as_list v; those (map as_str vs) }"

fun as_optional_float :: "pyval \<Rightarrow> real option option" where
  "as_optional_float PNone = Some None"
| "as_optional_float v = map_option Some (as_float v)"

definition WeeklySnapshot_to_dict :: "WeeklySnapshot \<Rightarrow> pydict" where
  "WeeklySnapshot_to_dict x =
     [(''period_start'', PStr (date_isoformat (period_start x))),
      (''period_end'', PStr (date_isoformat (period_end x))),
      (''total_events'', PInt (total_events x)),
      (''productivity_score'', PFloat (productivity_score x)),
      (''strategic_alignment_avg'', PFloat (strategic_alignment_avg x)),
      (''top_patterns'', PList (map PStr (top_patterns x))),
      (''anomalies_detected'', PInt (anomalies_detected x)),
      (''pattern_diversity'', PFloat (pattern_diversity x)),
      (''success_signal_rate'', PFloat (success_signal_rate x)),
      (''active_hours'', PInt (active_hours x))]"

definition WeeklySnapshot_from_dict :: "pydict \<Rightarrow> WeeklySnapshot option" where
  "WeeklySnapshot_from_dict data = do {
     ps \<leftarrow> dict_get data ''period_start'' \<bind> as_str \<bind> date_fromisoformat;
     pe \<leftarrow> dict_get data ''period_end'' \<bind> as_str \<bind> date_fromisoformat;
     te \<leftarrow> dict_get data ''total_events'' \<bind> as_int;
     sc \<leftarrow> dict_get data ''productivity_score'' \<bind> as_float;
     sa \<leftarrow> dict_get data ''strategic_alignment_avg'' \<bind> as_float;
     tp \<leftarrow> dict_get data ''top_patterns'' \<bind> as_str_list;
     ad \<leftarrow> dict_get data ''anomalies_detected'' \<bind> as_int;
     pd \<leftarrow> as_float (dict_get_default data ''pattern_diversity'' (PFloat 0.0));
     sr \<leftarrow> as_float (dict_get_default data ''success_signal_rate'' (PFloat 0.0));
     ah \<leftarrow> as_int (dict_get_default data ''active_hours'' (PInt 0));
     Some \<lparr>period_start = ps, period_end = pe, total_events = te, productivity_score = sc,
           strategic_alignment_avg = sa, top_patterns = tp, anomalies_detected = ad,
           pattern_diversity = pd, success_signal_rate = sr, active_hours = ah\<rparr>
   }"

definition TrendMetric_to_dict :: "TrendMetric \<Rightarrow> pydict" where
  "TrendMetric_to_dict x =
     [(''metric_name'', PStr (metric_name x)),
      (''current_value'', PFloat (current_value x)),
      (''previous_value'', PFloat (previous_value x)),
      (''change_percent'', PFloat (change_percent x)),
      (''trend_direction'', PStr (TrendDirection_value (trend_direction x))),
      (''significance'', PStr (TrendSignificance_value (significance x))),
      (''z_score'', PFloat (z_score x)),
      (''data_points'', PInt (data_points x))]"

definition TrendMetric_from_dict :: "pydict \<Rightarrow> TrendMetric option" where
  "TrendMetric_from_dict data = do {
     mn \<leftarrow> dict_get data ''metric_name'' \<bind> as_str;
     cv \<leftarrow> dict_get data ''current_value'' \<bind> as_float;
     pv \<leftarrow> dict_get data ''previous_value'' \<bind> as_float;
     cp \<leftarrow> dict_get data ''change_percent'' \<bind> as_float;
     td \<leftarrow> dict_get data ''trend_direction'' \<bind> as_str \<bind> TrendDirection_of_value;
     sg \<leftarrow> dict_get data ''significance'' \<bind> as_str \<bind> TrendSignificance_of_value;
     zs \<leftarrow> as_float (dict_get_default data ''z_score'' (PFloat 0.0));
     dp \<leftarrow> as_int (dict_get_default data ''data_points'' (PInt 1));
     Some \<lparr>metric_name = mn, current_value = cv, previous_value = pv, change_percent = cp,
           trend_direction = td, significance = sg, z_score = zs, data_points = dp\<rparr>
   }"

definition ExecutiveAlert_to_dict :: "ExecutiveAlert \<Rightarrow> pydict" where
  "ExecutiveAlert_to_dict x =
     [(''alert_id'', PStr (alert_id x)),
      (''severity'', PStr (AlertSeverity_value (severity x))),
      (''category'', PStr (AlertCategory_value (category x))),
      (''title'', PStr (title x)),
      (''description'', PStr (description x)),
      (''data_evidence'', PDict (data_evidence x)),
      (''suggested_actions'', PList (map PStr (suggested_actions x))),
      (''created_at'', PStr (datetime_isoformat (created_at x))),
      (''acknowledged'', PBool (acknowledged x)),
      (''threshold_triggered'',
         (case threshold_triggered x of None \<Rightarrow> PNone | Some r \<Rightarrow> PFloat r))]"

definition ExecutiveAlert_from_dict :: "pydict \<Rightarrow> ExecutiveAlert option" where
  "ExecutiveAlert_from_dict data = do {
     ai \<leftarrow> dict_get data ''alert_id'' \<bind> as_str;
     sv \<leftarrow> dict_get data ''severity'' \<bind> as_str \<bind> AlertSeverity_of_value;
     ct \<leftarrow> dict_get data ''category'' \<bind> as_str \<bind> AlertCategory_of_value;
     ti \<leftarrow> dict_get data ''title'' \<bind> as_str;
     ds \<leftarrow> dict_get data ''description'' \<bind> as_str;
     ev \<leftarrow> dict_get data ''data_evidence'' \<bind> as_dict;
     sa \<leftarrow> dict_get data ''suggested_actions'' \<bind> as_str_list;
     ca \<leftarrow> dict_get data ''created_at'' \<bind> as_str \<bind> datetime_fromisoformat;
     ak \<leftarrow> as_bool (dict_get_default data ''acknowledged'' (PBool False));
     tt \<leftarrow> as_optional_float (dict_get_default data ''threshold_triggered'' PNone);
     Some \<lparr>alert_id = ai, severity = sv, category = ct, title = ti, description = ds,
           data_evidence = ev, suggested_actions = sa, created_at = ca, acknowledged = ak,
           threshold_triggered = tt\<rparr>
   }"

definition GoalCorrelation_to_dict :: "GoalCorrelation \<Rightarrow> pydict" where
  "GoalCorrelation_to_dict x =
     [(''okr_id'', PStr (okr_id x)),
      (''okr_title'', PStr (okr_title x)),
      (''aligned_patterns'', PList (map PStr (aligned_patterns x))),
      (''alignment_score'', PFloat (alignment_score x)),
      (''progress_indicator'', PStr (ProgressIndicator_value (progress_indicator x))),
      (''recommendations'', PList (map PStr (recommendations x))),
      (''evidence_count'', PInt (evidence_count x)),
      (''last_activity'',
         (case last_activity x of None \<Rightarrow> PNone | Some t \<Rightarrow> PStr (datetime_isoformat t)))]"

definition GoalCorrelation_from_dict :: "pydict \<Rightarrow> GoalCorrelation option" where
  "GoalCorrelation_from_dict data = do {
     oi \<leftarrow> dict_get data ''okr_id'' \<bind> as_str;
     ot \<leftarrow> dict_get data ''okr_title'' \<bind> as_str;
     ap \<leftarrow> dict_get data ''aligned_patterns'' \<bind> as_str_list;
     sc \<leftarrow> dict_get data ''alignment_score'' \<bind> as_float;
     pi \<leftarrow> dict_get data ''progress_indicator'' \<bind> as_str \<bind> ProgressIndicator_of_value;
     rc \<leftarrow> dict_get data ''recommendations'' \<bind> as_str_list;
     ec \<leftarrow> as_int (dict_get_default data ''evidence_count'' (PInt 0));
     la \<leftarrow> (if truthy (dict_get_default data ''last_activity'' PNone)
           then map_option Some (dict_get data ''last_activity'' \<bind> as_str \<bind> datetime_fromisoformat)
           else Some None);
     Some \<lparr>okr_id = oi, okr_title = ot, aligned_patterns = ap, alignment_score = sc,
           progress_indicator = pi, recommendations = rc, evidence_count = ec,
           last_activity = la\<rparr>
   }"

definition ExecutiveInsightReport_to_dict :: "ExecutiveInsightReport \<Rightarrow> pydict" where
  "ExecutiveInsightReport_to_dict x =
     [(''generated_at'', PStr (datetime_isoformat (generated_at x))),
      (''weekly_snapshot'', PDict (WeeklySnapshot_to_dict (weekly_snapshot x))),
      (''trend_metrics'', PList (map (\<lambda>t. PDict (TrendMetric_to_dict t)) (trend_metrics x))),
      (''alerts'', PList (map (\<lambda>a. PDict (ExecutiveAlert_to_dict a)) (alerts x))),
      (''goal_correlations'',
         PList (map (\<lambda>g. PDict (GoalCorrelation_to_dict g)) (goal_correlations x))),
      (''summary'', PStr (summary x)),
      (''metadata'', PDict (metadata x))]"

definition ExecutiveInsightReport_from_dict :: "pydict \<Rightarrow> ExecutiveInsightReport option" where
  "ExecutiveInsightReport_from_dict data = do {
     ga \<leftarrow> dict_get data ''generated_at'' \<bind> as_str \<bind> datetime_fromisoformat;
     ws \<leftarrow> dict_get data ''weekly_snapshot'' \<bind> as_dict \<bind> WeeklySnapshot_from_dict;
     tl \<leftarrow> dict_get data ''trend_metrics'' \<bind> as_list;
     tm \<leftarrow> those (map (\<lambda>t. as_dict t \<bind> TrendMetric_from_dict) tl);
     al \<leftarrow> dict_get data ''alerts'' \<bind> as_list;
     als \<leftarrow> those (map (\<lambda>a. as_dict a \<bind> ExecutiveAlert_from_dict) al);
     gl \<leftarrow> dict_get data ''goal_correlations'' \<bind> as_list;
     gc \<leftarrow> those (map (\<lambda>g. as_dict g \<bind> GoalCorrelation_from_dict) gl);
     sm \<leftarrow> dict_get data ''summary'' \<bind> as_str;
     md \<leftarrow> as_dict (dict_get_default data ''metadata'' (PDict []));
     Some \<lparr>generated_at = ga, weekly_snapshot = ws, trend_metrics = tm, alerts = als,
           goal_correlations = gc, summary = sm, metadata = md\<rparr>
   }"

text \<open>
  The values Python can construct: every date and time in a field is a valid one.
\<close>

definition valid_WeeklySnapshot :: "WeeklySnapshot \<Rightarrow> bool" where
  "valid_WeeklySnapshot x = (valid_date (period_start x) \<and> valid_date (period_end x))"

definition valid_ExecutiveAlert :: "ExecutiveAlert \<Rightarrow> bool" where
  "valid_ExecutiveAlert x = valid_datetime (created_at x)"

definition valid_GoalCorrelation :: "GoalCorrelation \<Rightarrow> bool" where
  "valid_GoalCorrelation x = (case last_activity x of None \<Rightarrow> True | Some t \<Rightarrow> valid_datetime t)"

definition valid_ExecutiveInsightReport :: "ExecutiveInsightReport \<Rightarrow> bool" where
  "valid_ExecutiveInsightReport x =
     (valid_datetime (generated_at x) \<and> valid_WeeklySnapshot (weekly_snapshot x) \<and>
      list_all valid_ExecutiveAlert (alerts x) \<and>
      list_all valid_GoalCorrelation (goal_correlations x))"

section \<open>trend\_analyzer.py\<close>

text \<open>
  \<open>statistics.mean\<close> and \<open>statistics.stdev\<close> (the sample standard deviation). \<open>stdev\<close>
  raises \<open>StatisticsError\<close> on fewer than two points and returns \<open>0.0\<close> on equal points.
  \<open>mean\<close> raises on an empty list; every call below is guarded by a length test.
\<close>

definition mean :: "real list \<Rightarrow> real" where
  "mean xs = sum_list xs / real (length xs)"

definition stdev :: "real list \<Rightarrow> error + real" where
  "stdev xs =
     (if length xs < 2 then Inl StatisticsError
      else let m = mean xs
           in Inr (sqrt (sum_list (map (\<lambda>x. (x - m)\<^sup>2) xs) / real (length xs - 1))))"

text \<open>An entry of the list that \<open>detect_anomalies\<close> returns (a dict with these keys).\<close>

record Anomaly =
  anomaly_metric_name :: string
  anomaly_current_value :: real
  historical_mean :: real
  historical_stddev :: real
  anomaly_z_score :: real
  anomaly_type :: string
  anomaly_severity :: string
  anomaly_description :: string

text \<open>
  \<open>generate_weekly_snapshot\<close>. The week \<open>(period_start, period_end)\<close> computed from
  \<open>date.today()\<close> and the score that \<open>_get_strategic_alignment\<close> reads from the
  daily-plan files are the first two arguments.
\<close>

definition generate_weekly_snapshot ::
  "pydate \<times> pydate \<Rightarrow> real \<Rightarrow> PatternReport \<Rightarrow> int \<Rightarrow> WeeklySnapshot" where
  "generate_weekly_snapshot week strategic_alignment pattern_report time_active_minutes =
     (let n_events = int (length (command_sequences pattern_report)) +
                     int (length (file_clusters pattern_report)) +
                     int (length (success_correlations pattern_report));
          success_count = int (length (success_correlations pattern_report));
          avg_confidence = sum_list (map confidence (command_sequences pattern_report)) /
                           real_of_int (max 1 (int (length (command_sequences pattern_report))));
          n_hours = max 1 (time_active_minutes div 60);
          score = calculate_productivity_score success_count n_events avg_confidence n_hours;
          pattern_types =
            (if command_sequences pattern_report \<noteq> [] then [''command_sequences''] else []) @
            (if file_clusters pattern_report \<noteq> [] then [''file_clusters''] else []) @
            (if success_correlations pattern_report \<noteq> [] then [''success_correlations''] else []) @
            (if time_patterns pattern_report \<noteq> None then [''time_patterns''] else []);
          diversity = real (length pattern_types) / real (max 1 (4::nat));
          rate = real_of_int success_count / real_of_int (max 1 n_events);
          tops = map (\<lambda>seq. ''seq:'' @ join arrow (sequence seq))
                     (take 3 (command_sequences pattern_report)) @
                 map (\<lambda>cluster. ''cluster:'' @ cluster_id cluster)
                     (take 2 (file_clusters pattern_report))
      in \<lparr>period_start = fst week, period_end = snd week, total_events = n_events,
          productivity_score = score, strategic_alignment_avg = strategic_alignment,
          top_patterns = take 5 tops, anomalies_detected = 0,
          pattern_diversity = diversity, success_signal_rate = rate,
          active_hours = n_hours\<rparr>)"

definition format_anomaly_description :: "runtime \<Rightarrow> string \<Rightarrow> real \<Rightarrow> real \<Rightarrow> real \<Rightarrow> string" where
  "format_anomaly_description rt name v mu z =
     (let direction = (if z > 0 then ''higher'' else ''lower'');
          magnitude = \<bar>z\<bar>;
          metric_display = str_title (replace_char (CHR ''_'') (CHR '' '') name);
          word = (if magnitude \<ge> 3.0 then ''extremely''
                  else if magnitude \<ge> 2.0 then ''significantly'' else ''notably'');
          deviation_pct = \<bar>(v - mu) / max 0.01 mu\<bar> * 100
      in metric_display @ '' is '' @ word @ '' '' @ direction @ '' than normal ('' @
         fmt_fixed rt 2 v @ '' vs '' @ fmt_fixed rt 2 mu @ '' historical avg, '' @
         fmt_fixed rt 0 deviation_pct @ ''% deviation)'')"

text \<open>The \<open>if/elif\<close> chain of \<open>detect_anomalies\<close> that reads a metric off a snapshot.\<close>

definition snapshot_metric :: "string \<Rightarrow> WeeklySnapshot \<Rightarrow> real" where
  "snapshot_metric name snapshot =
     (if name = ''productivity_score'' then productivity_score snapshot
      else if name = ''strategic_alignment'' then strategic_alignment_avg snapshot
      else if name = ''pattern_diversity'' then pattern_diversity snapshot
      else if name = ''success_rate'' then success_signal_rate snapshot
      else real_of_int (active_hours snapshot))"

text \<open>The body of the loop over \<open>metrics_to_check\<close>: no anomaly or one.\<close>

definition check_metric ::
  "runtime \<Rightarrow> WeeklySnapshot list \<Rightarrow> real \<Rightarrow> string \<times> real \<Rightarrow> Anomaly list" where
  "check_metric rt previous_snapshots threshold_stddev m =
     (let name = fst m; v = snd m;
          historical_values = filter (\<lambda>val. val > 0) (map (snapshot_metric name) previous_snapshots)
      in if length historical_values < 2 then []
         else let hist_mean = mean historical_values;
                  hist_stddev = (case stdev historical_values of Inr sd \<Rightarrow> sd | Inl e \<Rightarrow> 0.1);
                  z = calculate_z_score v hist_mean hist_stddev
              in if \<bar>z\<bar> \<ge> threshold_stddev
                 then [\<lparr>anomaly_metric_name = name, anomaly_current_value = v,
                        historical_mean = hist_mean, historical_stddev = hist_stddev,
                        anomaly_z_score = z,
                        anomaly_type = (if z > 0 then ''high'' else ''low''),
                        anomaly_severity =
                          (if \<bar>z\<bar> \<ge> threshold_stddev * 1.5 then ''critical'' else ''warning''),
                        anomaly_description = format_anomaly_description rt name v hist_mean z\<rparr>]
                 else [])"

definition detect_anomalies ::
  "runtime \<Rightarrow> pydate \<times> pydate \<Rightarrow> real \<Rightarrow> PatternReport \<Rightarrow> WeeklySnapshot list \<Rightarrow> real \<Rightarrow> Anomaly list" where
  "detect_anomalies rt week strategic_alignment current_report previous_snapshots threshold_stddev =
     (if length previous_snapshots < 2 then []
      else let current_snapshot = generate_weekly_snapshot week strategic_alignment current_report 0;
               metrics_to_check =
                 [(''productivity_score'', productivity_score current_snapshot),
                  (''strategic_alignment'', strategic_alignment_avg current_snapshot),
                  (''pattern_diversity'', pattern_diversity current_snapshot),
                  (''success_rate'', success_signal_rate current_snapshot),
                  (''active_hours'', real_of_int (active_hours current_snapshot))]
           in concat (map (check_metric rt previous_snapshots threshold_stddev) metrics_to_check))"

definition DEFAULT_ANOMALY_THRESHOLD :: real where
  "DEFAULT_ANOMALY_THRESHOLD = 2.0"

definition calculate_metric_trend :: "string \<Rightarrow> real \<Rightarrow> real \<Rightarrow> real list \<Rightarrow> TrendMetric" where
  "calculate_metric_trend name v prev historical_values =
     (let change = calculate_change_percent v prev;
          direction = determine_trend_direction change 5.0;
          z = (if length historical_values \<ge> 2
               then let hist_mean = mean historical_values;
                        hist_stddev = (case stdev historical_values of Inr sd \<Rightarrow> sd | Inl e \<Rightarrow> 0.1)
                    in calculate_z_score v hist_mean hist_stddev
               else 0.0)
      in \<lparr>metric_name = name, current_value = v, previous_value = prev,
          change_percent = change, trend_direction = direction,
          significance = is_significant_change change z, z_score = z,
          data_points = int (length historical_values) + 1\<rparr>)"

section \<open>alert\_system.py\<close>

record AlertSystem =
  productivity_threshold :: real
  alignment_threshold :: real
  max_active_alerts :: int

definition PRODUCTIVITY_DROP_THRESHOLD :: real where "PRODUCTIVITY_DROP_THRESHOLD = 0.15"
definition ALIGNMENT_DROP_THRESHOLD :: real where "ALIGNMENT_DROP_THRESHOLD = 0.20"
definition NEW_PATTERN_CONFIDENCE_THRESHOLD :: real where "NEW_PATTERN_CONFIDENCE_THRESHOLD = 0.7"
definition CRITICAL_DROP_THRESHOLD :: real where "CRITICAL_DROP_THRESHOLD = 0.40"
definition WARNING_DROP_THRESHOLD :: real where "WARNING_DROP_THRESHOLD = 0.20"

text \<open>An \<open>AlertSystem\<close> constructed without configuration.\<close>

definition default_AlertSystem :: AlertSystem where
  "default_AlertSystem =
     \<lparr>productivity_threshold = PRODUCTIVITY_DROP_THRESHOLD,
      alignment_threshold = ALIGNMENT_DROP_THRESHOLD,
      max_active_alerts = 10\<rparr>"

definition calculate_alert_severity :: "AlertSystem \<Rightarrow> real \<Rightarrow> AlertCategory \<Rightarrow> AlertSeverity" where
  "calculate_alert_severity self change cat =
     (if change < 0
      then let magnitude = \<bar>change\<bar>
           in if cat = PRODUCTIVITY
              then (if magnitude \<ge> CRITICAL_DROP_THRESHOLD * 100 then CRITICAL
                    else if magnitude \<ge> WARNING_DROP_THRESHOLD * 100 then WARNING
                    else INFO)
              else if cat = ALIGNMENT
              then (if magnitude \<ge> WARNING_DROP_THRESHOLD * 100 then CRITICAL
                    else if magnitude \<ge> alignment_threshold self * 100 then WARNING
                    else INFO)
              else INFO
      else INFO)"

definition format_productivity_alert_description :: "runtime \<Rightarrow> TrendMetric \<Rightarrow> string" where
  "format_productivity_alert_description rt metric =
     (let direction = (if change_percent metric < 0 then ''decrease'' else ''increase'');
          magnitude = \<bar>change_percent metric\<bar>
      in ''Productivity score '' @ direction @ ''d by '' @ fmt_fixed rt 0 magnitude @
         ''% (from '' @ fmt_fixed rt 2 (previous_value metric) @ '' to '' @
         fmt_fixed rt 2 (current_value metric) @ ''). This is '' @
         TrendSignificance_value (significance metric) @ '' based on '' @
         str_int (data_points metric) @ '' weeks of data.'')"

definition format_alignment_alert_description :: "runtime \<Rightarrow> TrendMetric \<Rightarrow> string" where
  "format_alignment_alert_description rt metric =
     (let magnitude = \<bar>change_percent metric\<bar>
      in ''Strategic alignment decreased by '' @ fmt_fixed rt 0 magnitude @
         ''% (from '' @ fmt_fixed rt 2 (previous_value metric) @ '' to '' @
         fmt_fixed rt 2 (current_value metric) @
         ''). Work may be drifting from DPD strategic objectives.'')"

definition format_pattern_alert_description :: "runtime \<Rightarrow> CommandSequence \<Rightarrow> string" where
  "format_pattern_alert_description rt seq =
     (let workflow = join ('' '' @ arrow @ '' '') (sequence seq)
      in ''A new workflow pattern is emerging: '' @ [CHR 0x22] @ workflow @ [CHR 0x22] @
         ''. This sequence has occurred '' @ str_int (occurrence_count seq) @
         '' times with '' @ fmt_percent rt (confidence seq) @ '' confidence.'')"

definition format_opportunity_alert_description :: "runtime \<Rightarrow> TrendMetric \<Rightarrow> string" where
  "format_opportunity_alert_description rt metric =
     (let name = str_title (replace_char (CHR ''_'') (CHR '' '') (metric_name metric))
      in name @ '' increased by '' @ fmt_fixed rt 0 (change_percent metric) @
         ''% (from '' @ fmt_fixed rt 2 (previous_value metric) @ '' to '' @
         fmt_fixed rt 2 (current_value metric) @
         ''). Consider what drove this improvement and how to sustain it.'')"

definition get_productivity_suggestions :: "TrendMetric \<Rightarrow> string list" where
  "get_productivity_suggestions metric =
     (let suggestions =
            [''Review recent work sessions for bottlenecks or distractions'',
             ''Check if tool or process changes impacted productivity'',
             ''Consider if workload distribution is optimal'']
      in if z_score metric < - 2.0
         then ''CRITICAL: Investigate root cause immediately'' # suggestions
         else suggestions)"

definition get_alignment_suggestions :: "TrendMetric \<Rightarrow> string list" where
  "get_alignment_suggestions metric =
     [''Review recent work against DPD OKRs'',
      ''Check if current tasks align with strategic priorities'',
      ''Consider re-prioritizing to improve strategic alignment'',
      ''Ensure today_cmd planning includes strategic objectives'']"

definition get_opportunity_suggestions :: "TrendMetric \<Rightarrow> string list" where
  "get_opportunity_suggestions metric =
     (let name = replace_char (CHR ''_'') (CHR '' '') (metric_name metric)
      in [''Document what drove the '' @ name @ '' improvement'',
          ''Share successful practices with the team'',
          ''Consider making this a standard practice'',
          ''Monitor if this improvement is sustainable''])"

text \<open>
  \<open>_get_anomaly_suggestions\<close> computes \<open>anomaly["metric_name"].replace("_ " "")\<close> before
  anything else. The two adjacent literals are one string \<open>"_ "\<close>, so \<open>str.replace\<close> is
  called with one argument and raises \<open>TypeError\<close>; the lists below it are never returned.
\<close>

definition get_anomaly_suggestions :: "Anomaly \<Rightarrow> error + string list" where
  "get_anomaly_suggestions anomaly = Inl TypeError"

definition trend_evidence :: "TrendMetric \<Rightarrow> pydict" where
  "trend_evidence metric =
     [(''current_value'', PFloat (current_value metric)),
      (''previous_value'', PFloat (previous_value metric)),
      (''change_percent'', PFloat (change_percent metric)),
      (''z_score'', PFloat (z_score metric))]"

definition productivity_alert :: "AlertSystem \<Rightarrow> runtime \<Rightarrow> TrendMetric \<Rightarrow> ExecutiveAlert list" where
  "productivity_alert self rt metric =
     (if metric_name metric = ''productivity_score''
      then if change_percent metric < 0
           then let sev = calculate_alert_severity self (change_percent metric) PRODUCTIVITY
                in if sev = CRITICAL \<or> sev = WARNING
                   then [\<lparr>alert_id = generate_alert_id rt, severity = sev, category = PRODUCTIVITY,
                          title = ''Productivity '' @ str_title (AlertSeverity_value sev) @ '' Detected'',
                          description = format_productivity_alert_description rt metric,
                          data_evidence = trend_evidence metric,
                          suggested_actions = get_productivity_suggestions metric,
                          created_at = clock rt, acknowledged = False,
                          threshold_triggered = Some (change_percent metric)\<rparr>]
                   else []
           else []
      else [])"

definition check_productivity_alerts :: "AlertSystem \<Rightarrow> runtime \<Rightarrow> TrendMetric list \<Rightarrow> ExecutiveAlert list" where
  "check_productivity_alerts self rt metrics = concat (map (productivity_alert self rt) metrics)"

definition alignment_alert :: "AlertSystem \<Rightarrow> runtime \<Rightarrow> TrendMetric \<Rightarrow> ExecutiveAlert list" where
  "alignment_alert self rt metric =
     (if metric_name metric = ''strategic_alignment''
      then if change_percent metric < - alignment_threshold self * 100
           then let sev = calculate_alert_severity self (change_percent metric) ALIGNMENT
                in [\<lparr>alert_id = generate_alert_id rt, severity = sev, category = ALIGNMENT,
                      title = ''Strategic Alignment '' @ str_title (AlertSeverity_value sev) @ '' Detected'',
                      description = format_alignment_alert_description rt metric,
                      data_evidence = trend_evidence metric,
                      suggested_actions = get_alignment_suggestions metric,
                      created_at = clock rt, acknowledged = False,
                      threshold_triggered = Some (change_percent metric)\<rparr>]
           else []
      else [])"

definition check_alignment_alerts :: "AlertSystem \<Rightarrow> runtime \<Rightarrow> TrendMetric list \<Rightarrow> ExecutiveAlert list" where
  "check_alignment_alerts self rt metrics = concat (map (alignment_alert self rt) metrics)"

definition pattern_alert :: "runtime \<Rightarrow> CommandSequence \<Rightarrow> ExecutiveAlert list" where
  "pattern_alert rt seq =
     (if confidence seq \<ge> NEW_PATTERN_CONFIDENCE_THRESHOLD
      then if 3 \<le> occurrence_count seq \<and> occurrence_count seq \<le> 10
           then [\<lparr>alert_id = generate_alert_id rt, severity = INFO, category = PATTERN_CHANGE,
                  title = ''New High-Confidence Workflow Detected'',
                  description = format_pattern_alert_description rt seq,
                  data_evidence =
                    [(''sequence'', PList (map PStr (sequence seq))),
                     (''confidence'', PFloat (confidence seq)),
                     (''occurrence_count'', PInt (occurrence_count seq))],
                  suggested_actions =
                    [''Review the workflow: '' @ join ('' '' @ arrow @ '' '') (sequence seq),
                     ''Consider if this represents a reusable process'',
                     ''Document if this is a best practice to encourage''],
                  created_at = clock rt, acknowledged = False, threshold_triggered = None\<rparr>]
           else []
      else [])"

definition check_pattern_alerts :: "runtime \<Rightarrow> PatternReport \<Rightarrow> ExecutiveAlert list" where
  "check_pattern_alerts rt pattern_report =
     concat (map (pattern_alert rt) (command_sequences pattern_report))"

definition opportunity_alert :: "runtime \<Rightarrow> TrendMetric \<Rightarrow> ExecutiveAlert list" where
  "opportunity_alert rt metric =
     (if change_percent metric > 20
      then [\<lparr>alert_id = generate_alert_id rt, severity = INFO, category = OPPORTUNITY,
             title = ''Positive Trend in '' @
                     str_title (replace_char (CHR ''_'') (CHR '' '') (metric_name metric)),
             description = format_opportunity_alert_description rt metric,
             data_evidence =
               [(''metric_name'', PStr (metric_name metric)),
                (''current_value'', PFloat (current_value metric)),
                (''previous_value'', PFloat (previous_value metric)),
                (''change_percent'', PFloat (change_percent metric))],
             suggested_actions = get_opportunity_suggestions metric,
             created_at = clock rt, acknowledged = False, threshold_triggered = None\<rparr>]
      else [])"

definition check_opportunity_alerts :: "runtime \<Rightarrow> TrendMetric list \<Rightarrow> ExecutiveAlert list" where
  "check_opportunity_alerts rt metrics = concat (map (opportunity_alert rt) metrics)"

text \<open>
  \<open>_create_anomaly_alerts\<close>: building the alert of an anomaly evaluates
  \<open>_get_anomaly_suggestions\<close>, whose exception leaves the loop and the function.
\<close>

fun create_anomaly_alerts :: "runtime \<Rightarrow> Anomaly list \<Rightarrow> error + ExecutiveAlert list" where
  "create_anomaly_alerts rt [] = Inr []"
| "create_anomaly_alerts rt (anomaly # rest) =
     (let sev = (if anomaly_severity anomaly = ''critical'' then CRITICAL else WARNING)
      in case get_anomaly_suggestions anomaly of
           Inl e \<Rightarrow> Inl e
         | Inr suggestions \<Rightarrow>
             (case create_anomaly_alerts rt rest of
                Inl e \<Rightarrow> Inl e
              | Inr more_alerts \<Rightarrow>
                  Inr (\<lparr>alert_id = generate_alert_id rt, severity = sev, category = ANOMALY,
                        title = ''Statistical Anomaly: '' @
                                str_title (replace_char (CHR ''_'') (CHR '' '') (anomaly_metric_name anomaly)),
                        description = anomaly_description anomaly,
                        data_evidence =
                          [(''metric_name'', PStr (anomaly_metric_name anomaly)),
                           (''current_value'', PFloat (anomaly_current_value anomaly)),
                           (''historical_mean'', PFloat (historical_mean anomaly)),
                           (''z_score'', PFloat (anomaly_z_score anomaly)),
                           (''anomaly_type'', PStr (anomaly_type anomaly))],
                        suggested_actions = suggestions,
                        created_at = clock rt, acknowledged = False,
                        threshold_triggered = Some (anomaly_z_score anomaly)\<rparr> # more_alerts)))"

text \<open>The rank \<open>severity_order.get(a.severity, 3)\<close> that the cap sorts by.\<close>

fun severity_order :: "AlertSeverity \<Rightarrow> nat" where
  "severity_order CRITICAL = 0"
| "severity_order WARNING = 1"
| "severity_order INFO = 2"

text \<open>The slice \<open>xs[:k]\<close>; a negative \<open>k\<close> counts from the end.\<close>

definition slice_to :: "int \<Rightarrow> 'a list \<Rightarrow> 'a list" where
  "slice_to k xs = (if k \<ge> 0 then take (nat k) xs else take (nat (int (length xs) + k)) xs)"

text \<open>
  \<open>generate_alerts\<close>. \<open>list.sort\<close> is stable, as \<^const>\<open>sort_key\<close> is. The result is
  \<open>Inl\<close> when the function raises.
\<close>

definition generate_alerts ::
  "AlertSystem \<Rightarrow> runtime \<Rightarrow> TrendMetric list \<Rightarrow> Anomaly list \<Rightarrow> PatternReport option \<Rightarrow>
   error + ExecutiveAlert list" where
  "generate_alerts self rt metrics anomalies pattern_report =
     (let productivity_alerts = check_productivity_alerts self rt metrics;
          alignment_alerts = check_alignment_alerts self rt metrics;
          pattern_alerts = (case pattern_report of None \<Rightarrow> [] | Some r \<Rightarrow> check_pattern_alerts rt r);
          opportunity_alerts = check_opportunity_alerts rt metrics
      in case create_anomaly_alerts rt anomalies of
           Inl e \<Rightarrow> Inl e
         | Inr anomaly_alerts \<Rightarrow>
             (let all_alerts = productivity_alerts @ alignment_alerts @ pattern_alerts @
                               opportunity_alerts @ anomaly_alerts
              in if int (length all_alerts) > max_active_alerts self
                 then Inr (slice_to (max_active_alerts self)
                             (sort_key (\<lambda>a. severity_order (severity a)) all_alerts))
                 else Inr all_alerts))"

text \<open>
  The alerts that \<open>generate_alerts\<close> has collected from the trend metrics and the pattern
  report when it reaches the cap, in the order of its \<open>extend\<close> calls (anomaly alerts apart).
\<close>

definition alerts_before_cap ::
  "AlertSystem \<Rightarrow> runtime \<Rightarrow> TrendMetric list \<Rightarrow> PatternReport option \<Rightarrow> ExecutiveAlert list" where
  "alerts_before_cap self rt metrics pattern_report =
     check_productivity_alerts self rt metrics @ check_alignment_alerts self rt metrics @
     (case pattern_report of None \<Rightarrow> [] | Some r \<Rightarrow> check_pattern_alerts rt r) @
     check_opportunity_alerts rt metrics"

text \<open>
  A runtime for the worked examples: a fixed clock and a float renderer that prints a
  placeholder. No statement below depends on the rendered text.
\<close>

definition sample_runtime :: runtime where
  "sample_runtime =
     \<lparr>clock = \<lparr>year = 2025, month = 1, day = 30, hour = 14, minute = 30, second = 52,
               microsecond = 0\<rparr>,
      fmt_fixed = (\<lambda>digits x. ''#''), fmt_percent = (\<lambda>x. ''#'')\<rparr>"

text \<open>A trend metric with the given name and percentage change, for the worked examples.\<close>

definition sample_metric :: "string \<Rightarrow> real \<Rightarrow> TrendMetric" where
  "sample_metric name change =
     \<lparr>metric_name = name, current_value = 1 + change / 100, previous_value = 1,
      change_percent = change, trend_direction = determine_trend_direction change 5.0,
      significance = is_significant_change change 0, z_score = 0, data_points = 1\<rparr>"

section \<open>goal\_recommender.py\<close>

text \<open>
  An objective as \<open>load_okrs\<close> returns it: the title and the three lists that
  \<open>okr.get(..., [])\<close> reads (empty when the key is absent); \<open>okr_keywords\<close> is the
  entry \<open>"keywords"\<close>.
\<close>

record OKR =
  objective_title :: string
  okr_keywords :: "string list"
  file_patterns :: "string list"
  commands :: "string list"

definition DEFAULT_OKRS :: "(string \<times> OKR) list" where
  "DEFAULT_OKRS =
     [(''obj1'', \<lparr>objective_title = ''Decisions Improve as Work Happens'',
                  okr_keywords = [''dependency'', ''risk'', ''capacity'', ''dynamic planning'', ''real-time''],
                  file_patterns = [''Products/DPD/'', ''Products/AgilePlace/''],
                  commands = [''/today'', ''/commit'']\<rparr>),
      (''obj2'', \<lparr>objective_title = ''One Cohesive DPD Experience'',
                  okr_keywords = [''cohesive'', ''integration'', ''unified'', ''onboarding'', ''experience''],
                  file_patterns = [''Products/Roadmaps/'', ''Products/OKRs/''],
                  commands = [''/brainstorm'', ''/prd'']\<rparr>),
      (''obj3'', \<lparr>objective_title = ''Outcomes are Visible, Predictable, and Managed'',
                  okr_keywords = [''outcome'', ''visible'', ''predictable'', ''executive'', ''tracking''],
                  file_patterns = [''memory-bank/'', ''Docs/memos/''],
                  commands = [''/today'', ''memory'']\<rparr>),
      (''obj4'', \<lparr>objective_title = ''AI is Embedded in the Flow of Work'',
                  okr_keywords = [''ai'', ''automation'', ''claude'', ''anvi'', ''embedded''],
                  file_patterns = [''scripts/automation/'', ''.claude/''],
                  commands = [''/commit'', ''/brainstorm'']\<rparr>)]"

record GoalAwareRecommender =
  min_alignment_score :: real
  max_correlations_per_okr :: int

definition default_GoalAwareRecommender :: GoalAwareRecommender where
  "default_GoalAwareRecommender = \<lparr>min_alignment_score = 0.3, max_correlations_per_okr = 3\<rparr>"

definition determine_progress_indicator :: "real \<Rightarrow> ProgressIndicator" where
  "determine_progress_indicator score =
     (if score \<ge> 0.7 then ON_TRACK else if score \<ge> 0.4 then AT_RISK else BEHIND)"

definition generate_goal_recommendations :: "OKR \<Rightarrow> string list \<Rightarrow> real \<Rightarrow> string list" where
  "generate_goal_recommendations okr aligned score =
     (let recs =
            (if score < 0.4
             then [''Low alignment with '' @ [CHR 0x27] @ objective_title okr @ [CHR 0x27] @
                   '' - consider prioritizing related work'']
             else []) @
            (if ''dependency'' \<in> set (okr_keywords okr)
             then [''Focus on dependency management work to improve alignment''] else []) @
            (if ''ai'' \<in> set (okr_keywords okr)
             then [''Increase AI/automation work to improve alignment''] else []) @
            (if ''outcome'' \<in> set (okr_keywords okr)
             then [''Ensure work connects to measurable outcomes''] else []) @
            (case aligned of
               [] \<Rightarrow> []
             | top_pattern # _ \<Rightarrow>
                 if startswith top_pattern ''file:'' then [''Continue work in: '' @ drop 5 top_pattern]
                 else if startswith top_pattern ''cmd:'' then [''Leverage workflow: '' @ drop 4 top_pattern]
                 else [])
      in take 3 recs)"

text \<open>
  The three loops of \<open>correlate_patterns_to_goals\<close> for one objective. The state is the pair
  \<open>(aligned_patterns, alignment_factors)\<close>; the inner loop over the objective's patterns
  stops at the first match (\<open>break\<close>).
\<close>

type_synonym alignment_state = "string list \<times> real list"

definition file_step :: "OKR \<Rightarrow> alignment_state \<Rightarrow> string \<Rightarrow> alignment_state" where
  "file_step okr st file_path =
     (if list_ex (\<lambda>pat. str_contains pat file_path) (file_patterns okr)
      then (fst st @ [''file:'' @ file_path], snd st @ [0.3])
      else st)"

definition command_step :: "OKR \<Rightarrow> alignment_state \<Rightarrow> string \<Rightarrow> alignment_state" where
  "command_step okr st command =
     (let command_clean = lstrip_char (CHR ''/'') command
      in if list_ex (\<lambda>pat. str_contains pat command_clean) (commands okr)
         then (fst st @ [''cmd:'' @ command_clean], snd st @ [0.2])
         else st)"

definition keyword_step :: "string list \<Rightarrow> alignment_state \<Rightarrow> string \<Rightarrow> alignment_state" where
  "keyword_step file_paths st keyword =
     (if list_ex (\<lambda>file_path. str_contains (lower keyword) (lower file_path)) file_paths
      then (if ''kw:'' @ keyword \<notin> set (fst st)
            then (fst st @ [''kw:'' @ keyword], snd st @ [0.1])
            else st)
      else st)"

definition align_okr :: "OKR \<Rightarrow> string list \<Rightarrow> string list \<Rightarrow> alignment_state" where
  "align_okr okr file_paths cmds =
     foldl (keyword_step file_paths)
       (foldl (command_step okr) (foldl (file_step okr) ([], []) file_paths) cmds)
       (okr_keywords okr)"

definition correlate_okr ::
  "GoalAwareRecommender \<Rightarrow> runtime \<Rightarrow> string list \<Rightarrow> string list \<Rightarrow> string \<times> OKR \<Rightarrow>
   GoalCorrelation list" where
  "correlate_okr self rt file_paths cmds entry =
     (let oid = fst entry; okr = snd entry;
          st = align_okr okr file_paths cmds;
          aligned = fst st; alignment_factors = snd st;
          score = (if alignment_factors \<noteq> [] then min 1.0 (sum_list alignment_factors) else 0.0)
      in if score \<ge> min_alignment_score self
         then [\<lparr>okr_id = oid, okr_title = objective_title okr,
                aligned_patterns = slice_to (max_correlations_per_okr self) aligned,
                alignment_score = score,
                progress_indicator = determine_progress_indicator score,
                recommendations = generate_goal_recommendations okr aligned score,
                evidence_count = int (length aligned),
                last_activity = Some (clock rt)\<rparr>]
         else [])"

text \<open>
  \<open>correlate_patterns_to_goals\<close>; the objectives that \<open>load_okrs\<close> returns are an argument.
  \<open>correlations.sort(key=score, reverse=True)\<close> is a stable sort by descending score.
\<close>

definition correlate_patterns_to_goals ::
  "GoalAwareRecommender \<Rightarrow> runtime \<Rightarrow> (string \<times> OKR) list \<Rightarrow> PatternReport \<Rightarrow>
   GoalCorrelation list" where
  "correlate_patterns_to_goals self rt okrs pattern_report =
     (let file_paths = concat (map files (file_clusters pattern_report));
          cmds = concat (map sequence (command_sequences pattern_report));
          correlations = concat (map (correlate_okr self rt file_paths cmds) okrs)
      in sort_key (\<lambda>c. - alignment_score c) correlations)"

section \<open>pattern\_store.py\<close>

text \<open>
  A row of the table \<open>pattern_history\<close> and the table with its \<open>AUTOINCREMENT\<close> counter.
  The schema puts a unique index on \<open>pattern_key\<close>.
\<close>

record pattern_history_row =
  row_id :: int
  pattern_type :: string
  pattern_key :: string
  pattern_data :: string
  stored_confidence :: real
  first_seen :: string
  last_seen :: string
  stored_occurrence_count :: int

record pattern_db =
  pattern_history :: "pattern_history_row list"
  pattern_history_seq :: int

text \<open>The table after \<open>SCHEMA_SQL\<close> has created it.\<close>

definition empty_pattern_db :: pattern_db where
  "empty_pattern_db = \<lparr>pattern_history = [], pattern_history_seq = 0\<rparr>"

text \<open>
  \<open>_upsert_pattern\<close>: the \<open>UPDATE ... WHERE pattern_key = ?\<close>, and the \<open>INSERT\<close> when the
  update's \<open>rowcount\<close> is 0. \<open>now\<close> is \<open>CURRENT_TIMESTAMP\<close> and \<open>data_json\<close> is
  \<open>json.dumps(pattern_data)\<close>.
\<close>

definition upsert_pattern ::
  "pattern_db \<Rightarrow> string \<Rightarrow> string \<Rightarrow> string \<Rightarrow> string \<Rightarrow> real \<Rightarrow> pattern_db" where
  "upsert_pattern db now ptype pkey data_json conf =
     (let rowcount = length (filter (\<lambda>r. pattern_key r = pkey) (pattern_history db));
          updated = map (\<lambda>r. if pattern_key r = pkey
                               then r\<lparr>pattern_data := data_json, stored_confidence := conf,
                                      last_seen := now,
                                      stored_occurrence_count := stored_occurrence_count r + 1\<rparr>
                               else r)
                        (pattern_history db)
      in if rowcount = 0
         then \<lparr>pattern_history = updated @
                  [\<lparr>row_id = pattern_history_seq db + 1, pattern_type = ptype, pattern_key = pkey,
                    pattern_data = data_json, stored_confidence = conf, first_seen = now,
                    last_seen = now, stored_occurrence_count = 1\<rparr>],
               pattern_history_seq = pattern_history_seq db + 1\<rparr>
         else db\<lparr>pattern_history := updated\<rparr>)"

text \<open>The states of the table that calls of \<open>_upsert_pattern\<close> reach from the empty table.\<close>

inductive reachable :: "pattern_db \<Rightarrow> bool" where
  initial: "reachable empty_pattern_db"
| upsert: "reachable db \<Longrightarrow> reachable (upsert_pattern db now ptype pkey data_json conf)"

definition rows_with_key :: "string \<Rightarrow> pattern_db \<Rightarrow> pattern_history_row list" where
  "rows_with_key pkey db = filter (\<lambda>r. pattern_key r = pkey) (pattern_history db)"

text \<open>A snapshot, an alert, a goal correlation and a report for the worked examples.\<close>

definition sample_snapshot :: WeeklySnapshot where
  "sample_snapshot =
     \<lparr>period_start = \<lparr>year = 2025, month = 1, day = 6\<rparr>,
      period_end = \<lparr>year = 2025, month = 1, day = 12\<rparr>, total_events = 12,
      productivity_score = 0.5, strategic_alignment_avg = 0.6, top_patterns = [''cluster:a_cluster''],
      anomalies_detected = 0, pattern_diversity = 0.25, success_signal_rate = 0.1,
      active_hours = 1\<rparr>"

definition sample_alert :: ExecutiveAlert where
  "sample_alert =
     \<lparr>alert_id = ''alert_20250130_143052'', severity = WARNING, category = PRODUCTIVITY,
      title = ''Productivity Warning Detected'', description = ''Productivity score decreased'',
      data_evidence = [(''change_percent'', PFloat (- 25))],
      suggested_actions = [''Consider if workload distribution is optimal''],
      created_at = clock sample_runtime, acknowledged = False,
      threshold_triggered = Some (- 25)\<rparr>"

definition sample_goal :: GoalCorrelation where
  "sample_goal =
     \<lparr>okr_id = ''obj1'', okr_title = ''Decisions Improve as Work Happens'',
      aligned_patterns = [''file:Products/DPD/a.md''], alignment_score = 0.3,
      progress_indicator = BEHIND, recommendations = [''Continue work in: Products/DPD/a.md''],
      evidence_count = 1,
      last_activity = Some \<lparr>year = 2024, month = 2, day = 29, hour = 23, minute = 59, second = 59,
                              microsecond = 250000\<rparr>\<rparr>"

definition sample_report :: ExecutiveInsightReport where
  "sample_report =
     \<lparr>generated_at = clock sample_runtime, weekly_snapshot = sample_snapshot,
      trend_metrics = [sample_metric ''productivity_score'' (- 25)],
      alerts = [sample_alert], goal_correlations = [sample_goal, sample_goal\<lparr>last_activity := None\<rparr>],
      summary = ''One warning'', metadata = [(''version'', PInt 4)]\<rparr>"

section \<open>Verified properties\<close>

subsection \<open>Jaccard similarity\<close>

lemma jaccard_nonempty:
  "set1 \<noteq> {||} \<Longrightarrow> set2 \<noteq> {||} \<Longrightarrow>
   calculate_jaccard_similarity set1 set2 =
     real (fcard (set1 |\<inter>| set2)) / real (fcard (set1 |\<union>| set2))"
  by (auto simp: calculate_jaccard_similarity_def Let_def fcard_fempty)

lemma fcard_inter_le_union: "fcard (A |\<inter>| B) \<le> fcard (A |\<union>| B)"
  by (rule fcard_mono) auto

lemma fcard_inter_eq_union_iff: "fcard (A |\<inter>| B) = fcard (A |\<union>| B) \<longleftrightarrow> A = B"
proof
  assume eq: "fcard (A |\<inter>| B) = fcard (A |\<union>| B)"
  have sub: "A |\<inter>| B |\<subseteq>| A |\<union>| B" by auto
  have "\<not> (A |\<inter>| B |\<subset>| A |\<union>| B)"
    using pfsubset_fcard_mono [of "A |\<inter>| B" "A |\<union>| B"] eq by auto
  with sub have "A |\<inter>| B = A |\<union>| B" by auto
  then show "A = B" by auto
next
  assume "A = B" then show "fcard (A |\<inter>| B) = fcard (A |\<union>| B)" by simp
qed

text \<open>
  Claim C2 as stated: the similarity is \<open>1.0\<close> if and only if the two sets are equal.
  It fails for two empty sets, which are equal and have similarity \<open>0.0\<close>.
\<close>

theorem jaccard_equal_sets_counterexample:
  "\<not> (calculate_jaccard_similarity ({||} :: nat fset) {||} = 1 \<longleftrightarrow> ({||} :: nat fset) = {||})"
  by (simp add: calculate_jaccard_similarity_def)

text \<open>
  Claim C2, amended: for all sets \<open>A\<close> and \<open>B\<close> the similarity lies in \<open>[0,1]\<close>, is symmetric,
  is \<open>0.0\<close> whenever either set is empty, and is \<open>1.0\<close> if and only if \<open>A = B\<close> and the
  sets are not empty.
\<close>

theorem jaccard_properties:
  "0 \<le> calculate_jaccard_similarity A B \<and>
   calculate_jaccard_similarity A B \<le> 1 \<and>
   calculate_jaccard_similarity A B = calculate_jaccard_similarity B A \<and>
   (A = {||} \<or> B = {||} \<longrightarrow> calculate_jaccard_similarity A B = 0) \<and>
   (calculate_jaccard_similarity A B = 1 \<longleftrightarrow> A = B \<and> A \<noteq> {||})"
proof (cases "A = {||} \<or> B = {||}")
  case True
  then show ?thesis by (auto simp: calculate_jaccard_similarity_def)
next
  case False
  then have ne: "A \<noteq> {||}" "B \<noteq> {||}" by auto
  have "A |\<union>| B \<noteq> {||}" using ne by auto
  then have pos: "0 < fcard (A |\<union>| B)" by (simp add: neq0_conv [symmetric])
  have le: "fcard (A |\<inter>| B) \<le> fcard (A |\<union>| B)" by (rule fcard_inter_le_union)
  have j: "calculate_jaccard_similarity A B = real (fcard (A |\<inter>| B)) / real (fcard (A |\<union>| B))"
    by (rule jaccard_nonempty [OF ne])
  have j': "calculate_jaccard_similarity B A = real (fcard (A |\<inter>| B)) / real (fcard (A |\<union>| B))"
    by (simp add: jaccard_nonempty [OF ne(2) ne(1)] inf_commute sup_commute)
  have one: "calculate_jaccard_similarity A B = 1 \<longleftrightarrow> A = B"
  proof -
    have "real (fcard (A |\<inter>| B)) / real (fcard (A |\<union>| B)) = 1
            \<longleftrightarrow> fcard (A |\<inter>| B) = fcard (A |\<union>| B)"
      using pos by (auto simp: divide_eq_1_iff simp del: fcard_0_eq)
    then show ?thesis by (simp only: j fcard_inter_eq_union_iff)
  qed
  show ?thesis using pos le ne one by (simp add: j j')
qed

theorem jaccard_properties_witness:
  "calculate_jaccard_similarity {|1::nat, 2|} {||} = 0 \<and>
   calculate_jaccard_similarity {|1::nat, 2|} {|1, 2|} = 1 \<and>
   calculate_jaccard_similarity {|1::nat, 2|} {|2, 3|} = 1 / 3"
proof -
  have a: "calculate_jaccard_similarity {|1::nat, 2|} {||} = 0"
    using jaccard_properties [of "{|1::nat, 2|}" "{||}"] by simp
  have b: "calculate_jaccard_similarity {|1::nat, 2|} {|1, 2|} = 1"
    using jaccard_properties [of "{|1::nat, 2|}" "{|1::nat, 2|}"] by simp
  have c: "calculate_jaccard_similarity {|1::nat, 2|} {|2, 3|} = 1 / 3"
    by (simp add: calculate_jaccard_similarity_def Let_def fcard_finsert_if)
  show ?thesis using a b c by simp
qed

subsection \<open>Productivity score\<close>

text \<open>
  Claim C10 as stated: for \<open>total_events > 0\<close>, \<open>success_signals \<ge> 0\<close> and
  \<open>avg_confidence\<close> in \<open>[0,1]\<close> the score lies in \<open>[0,1]\<close>. The activity term
  \<open>min(1.0, active_hours / 8.0)\<close> has no lower bound, so a negative \<open>active_hours\<close>
  gives a negative score.
\<close>

theorem productivity_score_range_counterexample:
  "(1::int) > 0 \<and> (0::int) \<ge> 0 \<and> (0::real) \<ge> 0 \<and> (0::real) \<le> 1 \<and>
   \<not> (0 \<le> calculate_productivity_score 0 1 0 (-8))"
  by (simp add: calculate_productivity_score_def)

text \<open>
  Claim C10, amended: the score is exactly \<open>0.0\<close> whenever \<open>total_events = 0\<close>, whatever
  the other arguments; and for \<open>total_events > 0\<close>, \<open>success_signals \<ge> 0\<close>,
  \<open>avg_confidence\<close> in \<open>[0,1]\<close> and \<open>active_hours \<ge> 0\<close> the score lies in \<open>[0,1]\<close>.
\<close>

theorem productivity_score_range:
  "calculate_productivity_score s 0 c h = 0 \<and>
   (0 < t \<and> 0 \<le> s \<and> 0 \<le> c \<and> c \<le> 1 \<and> 0 \<le> h \<longrightarrow>
      0 \<le> calculate_productivity_score s t c h \<and> calculate_productivity_score s t c h \<le> 1)"
proof -
  have zero: "calculate_productivity_score s 0 c h = 0"
    by (simp add: calculate_productivity_score_def)
  have rng: "0 \<le> calculate_productivity_score s t c h \<and> calculate_productivity_score s t c h \<le> 1"
    if h: "0 < t" "0 \<le> s" "0 \<le> c" "c \<le> 1" "0 \<le> h"
  proof -
    define sr where "sr = min 1 (real_of_int s / real_of_int (max 1 t))"
    define ac where "ac = min 1 (real_of_int h / 8)"
    have sr: "0 \<le> sr" "sr \<le> 1" using h by (simp_all add: sr_def)
    have ac: "0 \<le> ac" "ac \<le> 1" using h by (simp_all add: ac_def)
    have eq: "calculate_productivity_score s t c h = sr * 0.4 + c * 0.3 + ac * 0.3"
      using h by (simp add: calculate_productivity_score_def sr_def ac_def)
    show ?thesis unfolding eq using sr ac h by simp
  qed
  show ?thesis using zero rng by blast
qed

theorem productivity_score_range_witness:
  "calculate_productivity_score 1 0 (1/2) 4 = 0 \<and>
   calculate_productivity_score 1 2 (1/2) 4 = 1/2 \<and>
   0 \<le> calculate_productivity_score 1 2 (1/2) 4 \<and> calculate_productivity_score 1 2 (1/2) 4 \<le> 1"
proof -
  have v: "calculate_productivity_score 1 2 (1/2) 4 = 1/2"
    by (simp add: calculate_productivity_score_def)
  show ?thesis
    using productivity_score_range [where s = 1 and c = "1/2" and h = 4 and t = 2] v by simp
qed

subsection \<open>Overall confidence of a pattern report\<close>

text \<open>
  Claim C4 as stated: the overall confidence is \<open>min(1, pattern_count / 10)\<close> for the report's
  derived \<open>pattern_count\<close>, which counts the time-pattern summary. It fails for a report whose
  only pattern is a time-pattern summary: the derived count is 1, the confidence is \<open>0.0\<close>.
\<close>

theorem analyze_all_patterns_confidence_counterexample:
  "report_confidence
     (analyze_all_patterns [] []
        (Some \<lparr>peak_hours = [9], peak_days = [0], avg_session_duration_minutes = 30,
               session_count_by_hour = [(9, 1)], most_productive_hour = Some 9\<rparr>) [] ''2025-01-30'')
   \<noteq> min 1 (real_of_int (pattern_count
     (analyze_all_patterns [] []
        (Some \<lparr>peak_hours = [9], peak_days = [0], avg_session_duration_minutes = 30,
               session_count_by_hour = [(9, 1)], most_productive_hour = Some 9\<rparr>) [] ''2025-01-30'')) / 10)"
  by (simp add: analyze_all_patterns_def pattern_count_def)

text \<open>
  Claim C4, amended: the overall confidence is \<open>min(1, k / 10)\<close> where \<open>k\<close> is the number of
  command sequences, file clusters and success correlations; the time-pattern summary is
  counted by the derived \<open>pattern_count\<close> (which is \<open>k\<close>, plus one when a summary is present)
  but not by the confidence.
\<close>

theorem analyze_all_patterns_confidence:
  "report_confidence (analyze_all_patterns cs fc tp sc ts) =
     min 1 (real (length cs + length fc + length sc) / 10) \<and>
   pattern_count (analyze_all_patterns cs fc tp sc ts) =
     int (length cs + length fc + length sc) + (if tp = None then 0 else 1)"
  by (simp add: analyze_all_patterns_def pattern_count_def)

theorem analyze_all_patterns_confidence_witness:
  "report_confidence
     (analyze_all_patterns [] []
        (Some \<lparr>peak_hours = [9], peak_days = [0], avg_session_duration_minutes = 30,
               session_count_by_hour = [(9, 1)], most_productive_hour = Some 9\<rparr>) [] ''2025-01-30'') = 0 \<and>
   pattern_count
     (analyze_all_patterns [] []
        (Some \<lparr>peak_hours = [9], peak_days = [0], avg_session_duration_minutes = 30,
               session_count_by_hour = [(9, 1)], most_productive_hour = Some 9\<rparr>) [] ''2025-01-30'') = 1"
  using analyze_all_patterns_confidence [of "[]" "[]"
        "Some \<lparr>peak_hours = [9], peak_days = [0], avg_session_duration_minutes = 30,
               session_count_by_hour = [(9, 1)], most_productive_hour = Some 9\<rparr>" "[]" "''2025-01-30''"]
  by simp

subsection \<open>Sequence mining\<close>

text \<open>
  Claim C6: for one session whose commands are \<open>a, b, c, a, b, c\<close> in temporal order, with
  window length 3 and \<open>min_occurrences = 2\<close>, every contiguous window of length 3 is counted,
  overlapping ones included (\<open>abc\<close> twice, \<open>bca\<close> and \<open>cab\<close> once), and exactly one
  \<open>CommandSequence\<close> is returned: \<open>[a, b, c]\<close> with \<open>occurrence_count = 2\<close> and confidence
  \<open>min(1, 2/10)\<close>.
\<close>

theorem sequence_mining_example:
  "sid \<noteq> [] \<Longrightarrow>
   ngrams 3 [''a'', ''b'', ''c'', ''a'', ''b'', ''c''] =
     [[''a'', ''b'', ''c''], [''b'', ''c'', ''a''], [''c'', ''a'', ''b''], [''a'', ''b'', ''c'']] \<and>
   analyze_command_sequences
     (default_PatternAnalyzer\<lparr>command_min_occurrences := 2, command_sequence_length := 3\<rparr>)
     [(''a'', e1, t1, Some sid), (''b'', e2, t2, Some sid), (''c'', e3, t3, Some sid),
      (''a'', e4, t4, Some sid), (''b'', e5, t5, Some sid), (''c'', e6, t6, Some sid)] =
     [\<lparr>sequence = [''a'', ''b'', ''c''], occurrence_count = 2, avg_duration_ms = 0,
       confidence = min 1 (2 / 10)\<rparr>]"
  by (simp add: analyze_command_sequences_def default_PatternAnalyzer_def
      build_session_sequences_def count_sequences_def ngrams_def most_common_def upt_rec)

theorem sequence_mining_example_witness:
  "analyze_command_sequences
     (default_PatternAnalyzer\<lparr>command_min_occurrences := 2, command_sequence_length := 3\<rparr>)
     [(''a'', 1, ''09:00'', Some ''s1''), (''b'', 2, ''09:01'', Some ''s1''),
      (''c'', 3, ''09:02'', Some ''s1''), (''a'', 4, ''09:03'', Some ''s1''),
      (''b'', 5, ''09:04'', Some ''s1''), (''c'', 6, ''09:05'', Some ''s1'')] =
     [\<lparr>sequence = [''a'', ''b'', ''c''], occurrence_count = 2, avg_duration_ms = 0,
       confidence = 1 / 5\<rparr>]"
  using sequence_mining_example [of "''s1''" 1 "''09:00''" 2 "''09:01''" 3 "''09:02''"
        4 "''09:03''" 5 "''09:04''" 6 "''09:05''"]
  by simp

subsection \<open>Anomaly detection on a constant history\<close>

text \<open>
  Claim C1 at its own example: four historical snapshots whose strategic alignment is 10 and
  a current alignment of 100. \<open>stdev\<close> returns \<open>0.0\<close> for equal points and does not raise, so
  the \<open>except\<close> branch that sets the deviation to \<open>0.1\<close> does not run, \<open>calculate_z_score\<close>
  returns \<open>0.0\<close> for a zero deviation, and no anomaly is reported.
\<close>

theorem detect_anomalies_constant_history:
  "stdev [10, 10, 10, 10] = Inr 0 \<and>
   calculate_z_score 100 (mean [10, 10, 10, 10]) 0 = 0 \<and>
   detect_anomalies rt week 100
     \<lparr>command_sequences = [], file_clusters = [], time_patterns = None,
      success_correlations = [], analysis_timestamp = ts, report_confidence = 0\<rparr>
     (replicate 4
        \<lparr>period_start = \<lparr>year = 2025, month = 1, day = 6\<rparr>,
         period_end = \<lparr>year = 2025, month = 1, day = 12\<rparr>, total_events = 0,
         productivity_score = 0, strategic_alignment_avg = 10, top_patterns = [],
         anomalies_detected = 0, pattern_diversity = 0, success_signal_rate = 0,
         active_hours = 0\<rparr>)
     DEFAULT_ANOMALY_THRESHOLD = []"
  by (simp add: detect_anomalies_def check_metric_def snapshot_metric_def mean_def stdev_def
      calculate_z_score_def generate_weekly_snapshot_def calculate_productivity_score_def
      DEFAULT_ANOMALY_THRESHOLD_def numeral_eq_Suc)

subsection \<open>Severity of alignment alerts\<close>









subsection \<open>The alert cap\<close>

lemma generate_alerts_no_anomalies:
  "generate_alerts self rt ms [] pr =
     Inr (if int (length (alerts_before_cap self rt ms pr)) > max_active_alerts self
          then slice_to (max_active_alerts self)
                 (sort_key (\<lambda>a. severity_order (severity a)) (alerts_before_cap self rt ms pr))
          else alerts_before_cap self rt ms pr)"
  by (simp add: generate_alerts_def alerts_before_cap_def Let_def)

lemma generate_alerts_anomaly_raises:
  "generate_alerts self rt ms (anomaly # rest) pr = Inl TypeError"
  by (simp add: generate_alerts_def get_anomaly_suggestions_def Let_def)

lemma filter_take_is_take_filter: "\<exists>k. filter P (take n ys) = take k (filter P ys)"
proof -
  have "filter P ys = filter P (take n ys) @ filter P (drop n ys)"
    by (metis append_take_drop_id filter_append)
  then have "take (length (filter P (take n ys))) (filter P ys) = filter P (take n ys)"
    by simp
  then show ?thesis by metis
qed

lemma severity_order_inj: "severity_order s = severity_order t \<longleftrightarrow> s = t"
  by (cases s; cases t) simp_all

lemma stable_by_severity:
  "filter (\<lambda>a. severity a = s) (sort_key (\<lambda>a. severity_order (severity a)) xs) =
   filter (\<lambda>a. severity a = s) xs"
  using sort_key_stable [of "\<lambda>a. severity_order (severity a)" "severity_order s" xs]
  by (simp add: severity_order_inj)

lemma sorted_take_drop_le:
  assumes "sorted (map f ys)"
  shows "\<forall>a \<in> set (drop n ys). \<forall>b \<in> set (take n ys). f b \<le> f a"
proof -
  have "sorted (map f (take n ys) @ map f (drop n ys))"
    using assms by (simp flip: map_append)
  then show ?thesis by (auto simp: sorted_append)
qed

text \<open>
  Claim C5 as stated: for every input the returned list is ranked by severity. It fails
  below the cap, where the alerts are returned in the order they were generated: a 25\%
  productivity drop (WARNING) followed by a 25\% alignment drop (CRITICAL).
\<close>

theorem generate_alerts_ranked_counterexample:
  "map_sum id (map severity)
     (generate_alerts default_AlertSystem sample_runtime
        [sample_metric ''productivity_score'' (-25), sample_metric ''strategic_alignment'' (-25)]
        [] None) = Inr [WARNING, CRITICAL] \<and>
   \<not> sorted (map severity_order [WARNING, CRITICAL])"
  by (simp add: generate_alerts_def default_AlertSystem_def sample_metric_def
      check_productivity_alerts_def check_alignment_alerts_def check_opportunity_alerts_def
      productivity_alert_def alignment_alert_def opportunity_alert_def calculate_alert_severity_def
      ALIGNMENT_DROP_THRESHOLD_def WARNING_DROP_THRESHOLD_def PRODUCTIVITY_DROP_THRESHOLD_def
      CRITICAL_DROP_THRESHOLD_def Let_def)

text \<open>
  Claim C5, amended: for a non-negative cap \<open>max_active_alerts\<close> (default 10) and an input
  without anomalies, \<open>generate_alerts\<close> returns a list of length at most the cap. When no
  more alerts are generated than the cap, the list is the generated alerts in generation
  order, not ranked. When more are generated, the list has exactly \<open>max_active_alerts\<close>
  entries, is ranked CRITICAL before WARNING before INFO with ties in generation order, and
  keeps the most severe alerts: no dropped alert is more severe than a kept one.
\<close>

theorem generate_alerts_cap:
  assumes cap: "0 \<le> max_active_alerts self"
  shows "\<exists>res. generate_alerts self rt ms [] pr = Inr res \<and>
     length res \<le> nat (max_active_alerts self) \<and>
     (int (length (alerts_before_cap self rt ms pr)) \<le> max_active_alerts self \<longrightarrow>
        res = alerts_before_cap self rt ms pr) \<and>
     (int (length (alerts_before_cap self rt ms pr)) > max_active_alerts self \<longrightarrow>
        length res = nat (max_active_alerts self) \<and>
        sorted (map (\<lambda>a. severity_order (severity a)) res) \<and>
        (\<forall>s. \<exists>k. filter (\<lambda>a. severity a = s) res =
                  take k (filter (\<lambda>a. severity a = s) (alerts_before_cap self rt ms pr))) \<and>
        (\<exists>dropped. mset (res @ dropped) = mset (alerts_before_cap self rt ms pr) \<and>
           (\<forall>a \<in> set dropped. \<forall>b \<in> set res.
              severity_order (severity b) \<le> severity_order (severity a))))"
proof -
  define gen where "gen = alerts_before_cap self rt ms pr"
  define n where "n = nat (max_active_alerts self)"
  define srt where "srt = sort_key (\<lambda>a. severity_order (severity a)) gen"
  have mx: "max_active_alerts self = int n" using cap by (simp add: n_def)
  show ?thesis
  proof (cases "int (length gen) > max_active_alerts self")
    case False
    then have "generate_alerts self rt ms [] pr = Inr gen"
      by (simp add: generate_alerts_no_anomalies gen_def)
    moreover have "length gen \<le> n" using False mx by simp
    ultimately show ?thesis using False by (simp add: gen_def n_def)
  next
    case True
    then have res: "generate_alerts self rt ms [] pr = Inr (take n srt)"
      using cap by (simp add: generate_alerts_no_anomalies gen_def srt_def slice_to_def n_def)
    have len: "length (take n srt) = n" using True mx by (simp add: srt_def)
    have srtd: "sorted (map (\<lambda>a. severity_order (severity a)) srt)"
      by (simp add: srt_def)
    have s1: "sorted (map (\<lambda>a. severity_order (severity a)) (take n srt))"
      using srtd by (simp add: take_map [symmetric] sorted_wrt_take)
    have s2: "\<exists>k. filter (\<lambda>a. severity a = s) (take n srt) = take k (filter (\<lambda>a. severity a = s) gen)" for s
      using filter_take_is_take_filter [of "\<lambda>a. severity a = s" n srt]
      by (simp add: srt_def stable_by_severity)
    have s3: "mset (take n srt @ drop n srt) = mset gen" by (simp add: srt_def)
    have s4: "\<forall>a \<in> set (drop n srt). \<forall>b \<in> set (take n srt).
                severity_order (severity b) \<le> severity_order (severity a)"
      by (rule sorted_take_drop_le [OF srtd])
    have "\<exists>dropped. mset (take n srt @ dropped) = mset gen \<and>
           (\<forall>a \<in> set dropped. \<forall>b \<in> set (take n srt).
              severity_order (severity b) \<le> severity_order (severity a))"
      using s3 s4 by blast
    then show ?thesis using True res len s1 s2 unfolding gen_def [symmetric] n_def [symmetric]
      by (intro exI [of _ "take n srt"]) simp
  qed
qed


theorem generate_alerts_cap_witness:
  "0 \<le> max_active_alerts default_AlertSystem \<and>
   map_sum id (map severity)
     (generate_alerts default_AlertSystem sample_runtime
        (replicate 5 (sample_metric ''productivity_score'' (-25)) @
         replicate 5 (sample_metric ''strategic_alignment'' (-25)) @
         replicate 5 (sample_metric ''success_rate'' 30)) [] None)
   = Inr (replicate 5 CRITICAL @ replicate 5 WARNING)"
proof -
  have cap: "0 \<le> max_active_alerts default_AlertSystem"
    by (simp add: default_AlertSystem_def)
  have ev: "map_sum id (map severity)
     (generate_alerts default_AlertSystem sample_runtime
        (replicate 5 (sample_metric ''productivity_score'' (-25)) @
         replicate 5 (sample_metric ''strategic_alignment'' (-25)) @
         replicate 5 (sample_metric ''success_rate'' 30)) [] None)
   = Inr (replicate 5 CRITICAL @ replicate 5 WARNING)"
    by (simp add: generate_alerts_def default_AlertSystem_def sample_metric_def
      check_productivity_alerts_def check_alignment_alerts_def check_opportunity_alerts_def
      productivity_alert_def alignment_alert_def opportunity_alert_def calculate_alert_severity_def
      ALIGNMENT_DROP_THRESHOLD_def WARNING_DROP_THRESHOLD_def PRODUCTIVITY_DROP_THRESHOLD_def
      CRITICAL_DROP_THRESHOLD_def Let_def slice_to_def numeral_eq_Suc)
  from generate_alerts_cap [OF cap, of sample_runtime
        "replicate 5 (sample_metric ''productivity_score'' (-25)) @
         replicate 5 (sample_metric ''strategic_alignment'' (-25)) @
         replicate 5 (sample_metric ''success_rate'' 30)" None]
  obtain res where "generate_alerts default_AlertSystem sample_runtime
        (replicate 5 (sample_metric ''productivity_score'' (-25)) @
         replicate 5 (sample_metric ''strategic_alignment'' (-25)) @
         replicate 5 (sample_metric ''success_rate'' 30)) [] None = Inr res"
    and "length res \<le> nat (max_active_alerts default_AlertSystem)"
    by blast
  then show ?thesis using cap ev by simp
qed

subsection \<open>Upsert by pattern key\<close>

lemma keys_updated:
  "map pattern_key (map (\<lambda>r. if pattern_key r = k then r\<lparr>pattern_data := d, stored_confidence := c,
        last_seen := n, stored_occurrence_count := stored_occurrence_count r + 1\<rparr> else r) rows)
   = map pattern_key rows"
  by (induction rows) auto

lemma filter_key_empty_iff: "filter (\<lambda>r. pattern_key r = k) rows = [] \<longleftrightarrow> k \<notin> pattern_key ` set rows"
  by (auto simp: filter_empty_conv)

lemma update_absent:
  "k \<notin> pattern_key ` set rows \<Longrightarrow>
   map (\<lambda>r. if pattern_key r = k then g r else r) rows = rows"
  by (induction rows) auto

lemma upsert_present:
  "rows_with_key k db \<noteq> [] \<Longrightarrow>
   pattern_history (upsert_pattern db now ty k d c) =
     map (\<lambda>r. if pattern_key r = k then r\<lparr>pattern_data := d, stored_confidence := c,
        last_seen := now, stored_occurrence_count := stored_occurrence_count r + 1\<rparr> else r)
       (pattern_history db)"
  by (simp add: upsert_pattern_def rows_with_key_def Let_def)

lemma upsert_absent:
  "rows_with_key k db = [] \<Longrightarrow>
   pattern_history (upsert_pattern db now ty k d c) =
     pattern_history db @
       [\<lparr>row_id = pattern_history_seq db + 1, pattern_type = ty, pattern_key = k,
         pattern_data = d, stored_confidence = c, first_seen = now,
         last_seen = now, stored_occurrence_count = 1\<rparr>]"
  by (simp add: upsert_pattern_def rows_with_key_def Let_def filter_key_empty_iff update_absent)

lemma upsert_keys_distinct:
  assumes "distinct (map pattern_key (pattern_history db))"
  shows "distinct (map pattern_key (pattern_history (upsert_pattern db now ty k d c)))"
proof (cases "rows_with_key k db = []")
  case True
  then have "k \<notin> pattern_key ` set (pattern_history db)"
    by (simp add: rows_with_key_def filter_key_empty_iff)
  then show ?thesis using assms by (simp add: upsert_absent [OF True])
next
  case False
  show ?thesis using assms by (simp only: upsert_present [OF False] keys_updated)
qed

lemma reachable_distinct: "reachable db \<Longrightarrow> distinct (map pattern_key (pattern_history db))"
proof (induction rule: reachable.induct)
  case initial
  show ?case by (simp add: empty_pattern_db_def)
next
  case (upsert db now ptype pkey data_json conf)
  from upsert.IH show ?case by (rule upsert_keys_distinct)
qed

lemma distinct_key_filter_le1:
  "distinct (map pattern_key rows) \<Longrightarrow> length (filter (\<lambda>r. pattern_key r = k) rows) \<le> 1"
proof (induction rows)
  case Nil show ?case by simp
next
  case (Cons r rows)
  show ?case
  proof (cases "pattern_key r = k")
    case True
    then have "k \<notin> pattern_key ` set rows" using Cons.prems by auto
    then have "filter (\<lambda>r. pattern_key r = k) rows = []" by (simp add: filter_key_empty_iff)
    then show ?thesis using True by simp
  next
    case False
    then show ?thesis using Cons by simp
  qed
qed

lemma filter_updated_same:
  "filter (\<lambda>r. pattern_key r = k) (map (\<lambda>r. if pattern_key r = k then g r else r) rows) =
   map g (filter (\<lambda>r. pattern_key r = k) rows)" if "\<And>r. pattern_key (g r) = pattern_key r"
  using that by (induction rows) auto

lemma filter_updated_other:
  "k' \<noteq> k \<Longrightarrow> (\<And>r. pattern_key (g r) = pattern_key r) \<Longrightarrow>
   filter (\<lambda>r. pattern_key r = k') (map (\<lambda>r. if pattern_key r = k then g r else r) rows) =
   filter (\<lambda>r. pattern_key r = k') rows"
  by (induction rows) auto

text \<open>
  Claim C7: in every state that calls of \<open>_upsert_pattern\<close> reach from the empty table there
  is at most one \<open>pattern_history\<close> row per \<open>pattern_key\<close>, and after an upsert exactly one.
  An upsert of a key that is present adds no row, increments the \<open>occurrence_count\<close> of the
  row of that key by exactly 1 and leaves the rows of the other keys as they are; an upsert
  of an absent key appends exactly one row, with \<open>occurrence_count\<close> 1.
\<close>

theorem upsert_pattern_unique_key:
  assumes "reachable db"
  shows "length (rows_with_key k db) \<le> 1 \<and>
         reachable (upsert_pattern db now ty k d c) \<and>
         length (rows_with_key k (upsert_pattern db now ty k d c)) = 1 \<and>
         (rows_with_key k db \<noteq> [] \<longrightarrow>
            length (pattern_history (upsert_pattern db now ty k d c)) = length (pattern_history db) \<and>
            map stored_occurrence_count (rows_with_key k (upsert_pattern db now ty k d c)) =
              map (\<lambda>r. stored_occurrence_count r + 1) (rows_with_key k db) \<and>
            (\<forall>k'. k' \<noteq> k \<longrightarrow> rows_with_key k' (upsert_pattern db now ty k d c) = rows_with_key k' db)) \<and>
         (rows_with_key k db = [] \<longrightarrow>
            (\<exists>row. pattern_history (upsert_pattern db now ty k d c) = pattern_history db @ [row] \<and>
                   pattern_key row = k \<and> stored_occurrence_count row = 1))"
proof -
  let ?db' = "upsert_pattern db now ty k d c"
  have r': "reachable ?db'" using assms by (rule reachable.upsert)
  have le: "length (rows_with_key k db) \<le> 1"
    using distinct_key_filter_le1 [OF reachable_distinct [OF assms], of k]
    by (simp add: rows_with_key_def)
  have le': "length (rows_with_key k ?db') \<le> 1"
    using distinct_key_filter_le1 [OF reachable_distinct [OF r'], of k]
    by (simp add: rows_with_key_def)
  have present: "length (pattern_history ?db') = length (pattern_history db) \<and>
            map stored_occurrence_count (rows_with_key k ?db') =
              map (\<lambda>r. stored_occurrence_count r + 1) (rows_with_key k db) \<and>
            (\<forall>k'. k' \<noteq> k \<longrightarrow> rows_with_key k' ?db' = rows_with_key k' db)"
    if ne: "rows_with_key k db \<noteq> []"
    by (simp add: upsert_present [OF ne] rows_with_key_def filter_updated_same filter_updated_other)
  have absent: "\<exists>row. pattern_history ?db' = pattern_history db @ [row] \<and>
                   pattern_key row = k \<and> stored_occurrence_count row = 1"
    if e: "rows_with_key k db = []"
    by (simp add: upsert_absent [OF e])
  have one: "length (rows_with_key k ?db') = 1"
  proof (cases "rows_with_key k db = []")
    case True
    then show ?thesis by (simp add: rows_with_key_def upsert_absent [OF True])
  next
    case False
    then have "length (rows_with_key k ?db') = length (rows_with_key k db)"
      using present [OF False] by (metis length_map)
    moreover have "length (rows_with_key k db) \<noteq> 0" using False by simp
    ultimately show ?thesis using le by linarith
  qed
  show ?thesis using le r' one present absent by blast
qed


theorem upsert_pattern_unique_key_witness:
  "reachable (upsert_pattern empty_pattern_db ''2025-01-30 10:00:00'' ''command_sequence''
               (''/today'' @ arrow @ ''/commit'') ''{}'' 0.3) \<and>
   map stored_occurrence_count
     (pattern_history
        (upsert_pattern
           (upsert_pattern empty_pattern_db ''2025-01-30 10:00:00'' ''command_sequence''
              (''/today'' @ arrow @ ''/commit'') ''{}'' 0.3)
           ''2025-01-31 10:00:00'' ''command_sequence'' (''/today'' @ arrow @ ''/commit'') ''{}'' 0.4))
   = [2]"
proof -
  have r: "reachable (upsert_pattern empty_pattern_db ''2025-01-30 10:00:00'' ''command_sequence''
               (''/today'' @ arrow @ ''/commit'') ''{}'' 0.3)"
    by (rule reachable.upsert [OF reachable.initial])
  have ev: "map stored_occurrence_count
     (pattern_history
        (upsert_pattern
           (upsert_pattern empty_pattern_db ''2025-01-30 10:00:00'' ''command_sequence''
              (''/today'' @ arrow @ ''/commit'') ''{}'' 0.3)
           ''2025-01-31 10:00:00'' ''command_sequence'' (''/today'' @ arrow @ ''/commit'') ''{}'' 0.4))
   = [2]"
    by (simp add: upsert_pattern_def empty_pattern_db_def arrow_def)
  show ?thesis
    using upsert_pattern_unique_key [OF r, of "''/today'' @ arrow @ ''/commit''"
        "''2025-01-31 10:00:00''" "''command_sequence''" "''{}''" "0.4"] r ev
    by simp
qed

subsection \<open>Range of the goal alignment score\<close>

lemma foldl_factors:
  assumes "\<And>st x. \<forall>f \<in> set (snd st). (0::real) \<le> f \<Longrightarrow> \<forall>f \<in> set (snd (step st x)). 0 \<le> f"
  shows "\<forall>f \<in> set (snd st). 0 \<le> f \<Longrightarrow> \<forall>f \<in> set (snd (foldl step st xs)). 0 \<le> f"
proof (induction xs arbitrary: st)
  case Nil
  then show ?case by simp
next
  case (Cons x xs)
  have "\<forall>f \<in> set (snd (step st x)). 0 \<le> f" by (rule assms [OF Cons.prems])
  then show ?case using Cons.IH by simp
qed

lemma file_step_factors:
  "\<forall>f \<in> set (snd st). 0 \<le> f \<Longrightarrow> \<forall>f \<in> set (snd (file_step okr st fp)). 0 \<le> f"
  by (auto simp: file_step_def)

lemma command_step_factors:
  "\<forall>f \<in> set (snd st). 0 \<le> f \<Longrightarrow> \<forall>f \<in> set (snd (command_step okr st cm)). 0 \<le> f"
  by (auto simp: command_step_def Let_def)

lemma keyword_step_factors:
  "\<forall>f \<in> set (snd st). 0 \<le> f \<Longrightarrow> \<forall>f \<in> set (snd (keyword_step fps st kw)). 0 \<le> f"
  by (auto simp: keyword_step_def)

lemma align_okr_factors: "\<forall>f \<in> set (snd (align_okr okr fps cmds)). 0 \<le> f"
  unfolding align_okr_def
  by (intro foldl_factors keyword_step_factors command_step_factors file_step_factors) simp_all

lemma align_okr_sum_nonneg: "0 \<le> sum_list (snd (align_okr okr fps cmds))"
  using align_okr_factors by (intro sum_list_nonneg) blast

lemma correlate_okr_range:
  "c \<in> set (correlate_okr self rt fps cmds entry) \<Longrightarrow> 0 \<le> alignment_score c \<and> alignment_score c \<le> 1"
  using align_okr_sum_nonneg [of "snd entry" fps cmds]
  by (auto simp: correlate_okr_def Let_def split: if_splits)

text \<open>
  Claim C8: for every pattern report and every set of objectives, each \<open>GoalCorrelation\<close>
  that \<open>correlate_patterns_to_goals\<close> returns has an \<open>alignment_score\<close> in \<open>[0,1]\<close>: the
  contributions (0.3 for a file-path match, 0.2 for a command match, 0.1 for a keyword) are
  never negative and their sum is capped at 1.0, however many factors match.
\<close>

theorem alignment_score_range:
  "\<forall>c \<in> set (correlate_patterns_to_goals self rt okrs report).
     0 \<le> alignment_score c \<and> alignment_score c \<le> 1"
  by (auto simp: correlate_patterns_to_goals_def Let_def dest: correlate_okr_range)


theorem alignment_score_range_witness:
  "map (\<lambda>c. (okr_id c, alignment_score c, evidence_count c, aligned_patterns c))
     (correlate_patterns_to_goals default_GoalAwareRecommender sample_runtime
        [(''obj1'', \<lparr>objective_title = ''Decisions'', okr_keywords = [''dpd''],
                     file_patterns = [''DPD/''], commands = [''today'']\<rparr>)]
        \<lparr>command_sequences = [\<lparr>sequence = [''/today'', ''/today'', ''/today''], occurrence_count = 3,
                                avg_duration_ms = 0, confidence = 0.3\<rparr>],
         file_clusters = [\<lparr>files = [''DPD/a'', ''DPD/b''], co_occurrence_count = 5,
                            jaccard_similarity = 0.5, cluster_id = ''a_cluster''\<rparr>],
         time_patterns = None, success_correlations = [], analysis_timestamp = ''ts'',
         report_confidence = 0.2\<rparr>) = [(''obj1'', 1, 6, [''file:DPD/a'', ''file:DPD/b'', ''cmd:today''])] \<and>
   list_all (\<lambda>c. 0 \<le> alignment_score c \<and> alignment_score c \<le> 1)
     (correlate_patterns_to_goals default_GoalAwareRecommender sample_runtime
        [(''obj1'', \<lparr>objective_title = ''Decisions'', okr_keywords = [''dpd''],
                     file_patterns = [''DPD/''], commands = [''today'']\<rparr>)]
        \<lparr>command_sequences = [\<lparr>sequence = [''/today'', ''/today'', ''/today''], occurrence_count = 3,
                                avg_duration_ms = 0, confidence = 0.3\<rparr>],
         file_clusters = [\<lparr>files = [''DPD/a'', ''DPD/b''], co_occurrence_count = 5,
                            jaccard_similarity = 0.5, cluster_id = ''a_cluster''\<rparr>],
         time_patterns = None, success_correlations = [], analysis_timestamp = ''ts'',
         report_confidence = 0.2\<rparr>)"
proof -
  have ev: "map (\<lambda>c. (okr_id c, alignment_score c, evidence_count c, aligned_patterns c))
     (correlate_patterns_to_goals default_GoalAwareRecommender sample_runtime
        [(''obj1'', \<lparr>objective_title = ''Decisions'', okr_keywords = [''dpd''],
                     file_patterns = [''DPD/''], commands = [''today'']\<rparr>)]
        \<lparr>command_sequences = [\<lparr>sequence = [''/today'', ''/today'', ''/today''], occurrence_count = 3,
                                avg_duration_ms = 0, confidence = 0.3\<rparr>],
         file_clusters = [\<lparr>files = [''DPD/a'', ''DPD/b''], co_occurrence_count = 5,
                            jaccard_similarity = 0.5, cluster_id = ''a_cluster''\<rparr>],
         time_patterns = None, success_correlations = [], analysis_timestamp = ''ts'',
         report_confidence = 0.2\<rparr>) = [(''obj1'', 1, 6, [''file:DPD/a'', ''file:DPD/b'', ''cmd:today''])]"
    by (simp add: correlate_patterns_to_goals_def default_GoalAwareRecommender_def correlate_okr_def
        align_okr_def file_step_def command_step_def keyword_step_def Let_def startswith_def
        lstrip_char_def lower_def to_lower_def upper_letters_def lower_letters_def slice_to_def)
  have rng: "list_all (\<lambda>c. 0 \<le> alignment_score c \<and> alignment_score c \<le> 1)
     (correlate_patterns_to_goals default_GoalAwareRecommender sample_runtime
        [(''obj1'', \<lparr>objective_title = ''Decisions'', okr_keywords = [''dpd''],
                     file_patterns = [''DPD/''], commands = [''today'']\<rparr>)]
        \<lparr>command_sequences = [\<lparr>sequence = [''/today'', ''/today'', ''/today''], occurrence_count = 3,
                                avg_duration_ms = 0, confidence = 0.3\<rparr>],
         file_clusters = [\<lparr>files = [''DPD/a'', ''DPD/b''], co_occurrence_count = 5,
                            jaccard_similarity = 0.5, cluster_id = ''a_cluster''\<rparr>],
         time_patterns = None, success_correlations = [], analysis_timestamp = ''ts'',
         report_confidence = 0.2\<rparr>)"
    using alignment_score_range [of default_GoalAwareRecommender sample_runtime]
    by (simp add: list_all_iff)
  show ?thesis using ev rng by simp
qed

subsection \<open>Round trip through \<open>to_dict\<close> and \<open>from_dict\<close>\<close>

lemma length_zfill [simp]: "length (zfill w n) = w"
  by (induction w arbitrary: n) simp_all

lemma digit_val_digit_char: "d < 10 \<Longrightarrow> digit_val (digit_char d) = Some d"
proof -
  assume "d < 10"
  then have "d \<in> {0, 1, 2, 3, 4, 5, 6, 7, 8, 9}" by auto
  then show ?thesis by (auto simp: digit_val_def digit_char_def)
qed

lemma parse_digits_append:
  "parse_digits (xs @ ys) acc =
     (case parse_digits xs acc of None \<Rightarrow> None | Some a \<Rightarrow> parse_digits ys a)"
  by (induction xs arbitrary: acc) (auto split: option.splits)

lemma parse_digits_zfill: "parse_digits (zfill w n) acc = Some (acc * 10 ^ w + n mod 10 ^ w)"
proof (induction w arbitrary: n acc)
  case 0
  show ?case by simp
next
  case (Suc w)
  have "n mod (10 * 10 ^ w) = 10 * (n div 10 mod 10 ^ w) + n mod 10"
    by (rule mod_mult2_eq)
  then show ?case
    by (simp add: parse_digits_append Suc.IH digit_val_digit_char algebra_simps)
qed

lemma parse_digits_zfill_small: "n < 10 ^ w \<Longrightarrow> parse_digits (zfill w n) 0 = Some n"
  by (simp add: parse_digits_zfill)

lemma days_in_month_le: "days_in_month y m \<le> 31"
  by (simp add: days_in_month_def)

lemma parse_ymd_roundtrip:
  assumes "valid_ymd y m d"
  shows "parse_ymd (zfill 4 y @ CHR ''-'' # zfill 2 m @ CHR ''-'' # zfill 2 d) = Some (y, m, d)"
proof -
  have b: "y < 10 ^ 4" "m < 10 ^ 2" "d < 10 ^ 2"
    using assms days_in_month_le [of y m] by (auto simp: valid_ymd_def)
  show ?thesis
    using assms by (simp add: parse_ymd_def nth_append parse_digits_zfill_small [OF b(1)]
        parse_digits_zfill_small [OF b(2)] parse_digits_zfill_small [OF b(3)])
qed

lemma date_roundtrip: "valid_date d \<Longrightarrow> date_fromisoformat (date_isoformat d) = Some d"
  by (cases d) (simp add: date_fromisoformat_def date_isoformat_def valid_date_def parse_ymd_roundtrip)

lemma parse_hms_roundtrip_seconds:
  assumes "valid_hms h mi s 0"
  shows "parse_hms (zfill 2 h @ CHR '':'' # zfill 2 mi @ CHR '':'' # zfill 2 s) = Some (h, mi, s, 0)"
proof -
  have b: "h < 10 ^ 2" "mi < 10 ^ 2" "s < 10 ^ 2"
    using assms by (auto simp: valid_hms_def)
  show ?thesis
    using assms by (simp add: parse_hms_def nth_append parse_digits_zfill_small [OF b(1)]
        parse_digits_zfill_small [OF b(2)] parse_digits_zfill_small [OF b(3)])
qed

lemma parse_hms_roundtrip_micro:
  assumes "valid_hms h mi s us"
  shows "parse_hms (zfill 2 h @ CHR '':'' # zfill 2 mi @ CHR '':'' # zfill 2 s @ CHR ''.'' # zfill 6 us)
         = Some (h, mi, s, us)"
proof -
  have b: "h < 10 ^ 2" "mi < 10 ^ 2" "s < 10 ^ 2" "us < 10 ^ 6"
    using assms by (auto simp: valid_hms_def)
  show ?thesis
    using assms by (simp add: parse_hms_def nth_append parse_digits_zfill_small [OF b(1)]
        parse_digits_zfill_small [OF b(2)] parse_digits_zfill_small [OF b(3)]
        parse_digits_zfill_small [OF b(4)])
qed

lemma datetime_roundtrip:
  "valid_datetime t \<Longrightarrow> datetime_fromisoformat (datetime_isoformat t) = Some t"
  by (cases t) (auto simp: datetime_fromisoformat_def datetime_isoformat_def valid_datetime_def
      parse_ymd_roundtrip parse_hms_roundtrip_seconds parse_hms_roundtrip_micro)

lemma those_as_str [simp]: "those (map (as_str \<circ> PStr) xs) = Some xs"
  by (induction xs) simp_all

lemma as_str_list_PList [simp]: "as_str_list (PList (map PStr xs)) = Some xs"
  by (simp add: as_str_list_def)

lemma WeeklySnapshot_roundtrip:
  "valid_date (period_start x) \<Longrightarrow> valid_date (period_end x) \<Longrightarrow>
   WeeklySnapshot_from_dict (WeeklySnapshot_to_dict x) = Some x"
  by (cases x) (simp add: WeeklySnapshot_from_dict_def WeeklySnapshot_to_dict_def dict_get_def
      dict_get_default_def date_roundtrip)

lemma TrendDirection_value_roundtrip [simp]:
  "TrendDirection_of_value (TrendDirection_value d) = Some d"
  by (cases d) simp_all

lemma TrendSignificance_value_roundtrip [simp]:
  "TrendSignificance_of_value (TrendSignificance_value d) = Some d"
  by (cases d) simp_all

lemma AlertSeverity_value_roundtrip [simp]:
  "AlertSeverity_of_value (AlertSeverity_value d) = Some d"
  by (cases d) simp_all

lemma AlertCategory_value_roundtrip [simp]:
  "AlertCategory_of_value (AlertCategory_value d) = Some d"
  by (cases d) simp_all

lemma ProgressIndicator_value_roundtrip [simp]:
  "ProgressIndicator_of_value (ProgressIndicator_value d) = Some d"
  by (cases d) simp_all

lemma TrendMetric_roundtrip: "TrendMetric_from_dict (TrendMetric_to_dict x) = Some x"
  by (cases x) (simp add: TrendMetric_from_dict_def TrendMetric_to_dict_def dict_get_def
      dict_get_default_def del: TrendDirection_of_value.simps TrendSignificance_of_value.simps)

lemma ExecutiveAlert_roundtrip:
  "valid_ExecutiveAlert x \<Longrightarrow> ExecutiveAlert_from_dict (ExecutiveAlert_to_dict x) = Some x"
  by (cases x) (simp add: ExecutiveAlert_from_dict_def ExecutiveAlert_to_dict_def dict_get_def
      dict_get_default_def valid_ExecutiveAlert_def datetime_roundtrip split: option.splits
      del: AlertSeverity_of_value.simps AlertCategory_of_value.simps)

lemma datetime_isoformat_nonempty: "datetime_isoformat t \<noteq> []"
  by (simp add: datetime_isoformat_def)

lemma GoalCorrelation_roundtrip:
  "valid_GoalCorrelation x \<Longrightarrow> GoalCorrelation_from_dict (GoalCorrelation_to_dict x) = Some x"
  by (cases x) (simp add: GoalCorrelation_from_dict_def GoalCorrelation_to_dict_def dict_get_def
      dict_get_default_def valid_GoalCorrelation_def datetime_roundtrip datetime_isoformat_nonempty
      split: option.splits del: ProgressIndicator_of_value.simps)

lemma those_TrendMetric:
  "those (map ((\<lambda>t. as_dict t \<bind> TrendMetric_from_dict) \<circ> (\<lambda>t. PDict (TrendMetric_to_dict t))) xs) = Some xs"
  by (induction xs) (simp_all add: TrendMetric_roundtrip)

lemma those_ExecutiveAlert:
  "list_all valid_ExecutiveAlert xs \<Longrightarrow>
   those (map ((\<lambda>a. as_dict a \<bind> ExecutiveAlert_from_dict) \<circ> (\<lambda>a. PDict (ExecutiveAlert_to_dict a))) xs) = Some xs"
  by (induction xs) (simp_all add: ExecutiveAlert_roundtrip)

lemma those_GoalCorrelation:
  "list_all valid_GoalCorrelation xs \<Longrightarrow>
   those (map ((\<lambda>g. as_dict g \<bind> GoalCorrelation_from_dict) \<circ> (\<lambda>g. PDict (GoalCorrelation_to_dict g))) xs) = Some xs"
  by (induction xs) (simp_all add: GoalCorrelation_roundtrip)

lemma ExecutiveInsightReport_roundtrip:
  "valid_ExecutiveInsightReport x \<Longrightarrow>
   ExecutiveInsightReport_from_dict (ExecutiveInsightReport_to_dict x) = Some x"
  by (cases x) (simp add: ExecutiveInsightReport_from_dict_def ExecutiveInsightReport_to_dict_def
      dict_get_def dict_get_default_def valid_ExecutiveInsightReport_def valid_WeeklySnapshot_def
      datetime_roundtrip WeeklySnapshot_roundtrip those_TrendMetric those_ExecutiveAlert
      those_GoalCorrelation)

text \<open>
  Claim C9: for every well-formed value of each of the five report types (\<open>WeeklySnapshot\<close>,
  \<open>TrendMetric\<close>, \<open>ExecutiveAlert\<close>, \<open>GoalCorrelation\<close>, \<open>ExecutiveInsightReport\<close>),
  deserializing its serialization gives back an equal value: \<open>from_dict(to_dict(x)) == x\<close>.
\<close>

theorem to_dict_from_dict_roundtrip:
  "(valid_WeeklySnapshot w \<longrightarrow> WeeklySnapshot_from_dict (WeeklySnapshot_to_dict w) = Some w) \<and>
   TrendMetric_from_dict (TrendMetric_to_dict t) = Some t \<and>
   (valid_ExecutiveAlert a \<longrightarrow> ExecutiveAlert_from_dict (ExecutiveAlert_to_dict a) = Some a) \<and>
   (valid_GoalCorrelation g \<longrightarrow> GoalCorrelation_from_dict (GoalCorrelation_to_dict g) = Some g) \<and>
   (valid_ExecutiveInsightReport r \<longrightarrow>
      ExecutiveInsightReport_from_dict (ExecutiveInsightReport_to_dict r) = Some r)"
  using WeeklySnapshot_roundtrip [of w] TrendMetric_roundtrip [of t] ExecutiveAlert_roundtrip [of a]
    GoalCorrelation_roundtrip [of g] ExecutiveInsightReport_roundtrip [of r]
  by (simp add: valid_WeeklySnapshot_def)

theorem to_dict_from_dict_roundtrip_witness:
  "valid_WeeklySnapshot sample_snapshot \<and>
   WeeklySnapshot_from_dict (WeeklySnapshot_to_dict sample_snapshot) = Some sample_snapshot \<and>
   valid_ExecutiveAlert sample_alert \<and>
   ExecutiveAlert_from_dict (ExecutiveAlert_to_dict sample_alert) = Some sample_alert \<and>
   valid_GoalCorrelation sample_goal \<and>
   GoalCorrelation_from_dict (GoalCorrelation_to_dict sample_goal) = Some sample_goal \<and>
   valid_ExecutiveInsightReport sample_report \<and>
   ExecutiveInsightReport_from_dict (ExecutiveInsightReport_to_dict sample_report) = Some sample_report"
proof -
  have v: "valid_WeeklySnapshot sample_snapshot" "valid_ExecutiveAlert sample_alert"
    "valid_GoalCorrelation sample_goal" "valid_GoalCorrelation (sample_goal\<lparr>last_activity := None\<rparr>)"
    by (simp_all add: valid_WeeklySnapshot_def valid_ExecutiveAlert_def valid_GoalCorrelation_def
        sample_snapshot_def sample_alert_def sample_goal_def sample_runtime_def valid_date_def
        valid_datetime_def valid_ymd_def valid_hms_def days_in_month_def is_leap_def)
  have vr: "valid_ExecutiveInsightReport sample_report"
    using v by (simp add: valid_ExecutiveInsightReport_def sample_report_def sample_runtime_def
        valid_datetime_def valid_ymd_def valid_hms_def days_in_month_def)
  show ?thesis
    using to_dict_from_dict_roundtrip [of sample_snapshot "sample_metric ''productivity_score'' (- 25)"
        sample_alert sample_goal sample_report] v vr
    by simp
qed

end
